theory Spec2Isabelle
  imports Complex_Main "HOL-Library.Multiset"
begin

section \<open>Shared data model\<close>

text \<open>
  The TypeScript sources compute with IEEE doubles.  Counters that are only ever
  incremented or decremented by one (\<open>runningCount\<close>, \<open>cardsDealt\<close>, hand totals,
  recursion depth) are modelled as \<^typ>\<open>int\<close> or \<^typ>\<open>nat\<close>; every other
  \<open>number\<close> is modelled as an exact \<^typ>\<open>real\<close>, so rounding error of the
  floating-point operations is not represented.  The value \<open>-Infinity\<close>, which the
  strategy engine uses for ineligible actions, is modelled explicitly.
\<close>

datatype suit = Hearts | Diamonds | Clubs | Spades

record card =
  suit :: suit
  rank :: string

datatype action = Hit | Stand | Double | Split

record config =
  botEnabled :: bool
  cardCountingEnabled :: bool
  learningEnabled :: bool
  minBet :: real
  maxBet :: real
  countThresholdBetIncrease :: real

text \<open>The defaults of \<open>config.ts\<close> when no environment variable is set.\<close>

definition defaultConfig :: config where
  "defaultConfig = \<lparr> botEnabled = True, cardCountingEnabled = True, learningEnabled = True,
     minBet = 25, maxBet = 100, countThresholdBetIncrease = 2 \<rparr>"

text \<open>\<open>Math.round\<close>: the nearest integer, halves rounded towards plus infinity.\<close>

definition mathRound :: "real \<Rightarrow> real" where
  "mathRound x = of_int \<lfloor>x + 1 / 2\<rfloor>"

definition mathFloor :: "real \<Rightarrow> real" where
  "mathFloor x = of_int \<lfloor>x\<rfloor>"

section \<open>CardCounter\<close>

record cardCounter =
  runningCount :: int
  cardsDealt :: int
  enabled :: bool

definition totalCards :: int where
  "totalCards = 416"

text \<open>The constructor: both counters start at zero.\<close>

definition newCardCounter :: "bool \<Rightarrow> cardCounter" where
  "newCardCounter en = \<lparr> runningCount = 0, cardsDealt = 0, enabled = en \<rparr>"

definition updateCount :: "cardCounter \<Rightarrow> card \<Rightarrow> cardCounter" where
  "updateCount c cd =
     (if \<not> enabled c then c
      else
        let c1 = c\<lparr>cardsDealt := cardsDealt c + 1\<rparr>;
            r = rank cd
        in if r \<in> set [''2'', ''3'', ''4'', ''5'', ''6''] then
             c1\<lparr>runningCount := runningCount c1 + 1\<rparr>
           else if r \<in> set [''10'', ''J'', ''Q'', ''K'', ''A''] then
             c1\<lparr>runningCount := runningCount c1 - 1\<rparr>
           else c1)"

definition getTrueCount :: "cardCounter \<Rightarrow> real" where
  "getTrueCount c =
     (if \<not> enabled c then 0
      else
        let cardsRemaining = totalCards - cardsDealt c;
            decksRemaining = real_of_int cardsRemaining / 52
        in if decksRemaining \<le> 0 then 0
           else
             let trueCount = real_of_int (runningCount c) / decksRemaining
             in mathRound (trueCount * 10) / 10)"

definition getBet :: "config \<Rightarrow> cardCounter \<Rightarrow> real \<Rightarrow> real" where
  "getBet cfg c currentChips =
     (if \<not> enabled c then minBet cfg
      else
        let trueCount = getTrueCount c;
            minB = minBet cfg;
            maxB = min (maxBet cfg) currentChips
        in if trueCount \<ge> 5 then maxB
           else if trueCount \<ge> 4 then min (mathFloor (maxB * 0.8)) currentChips
           else if trueCount \<ge> 3 then min (mathFloor (maxB * 0.6)) currentChips
           else if trueCount \<ge> countThresholdBetIncrease cfg then
             min (mathFloor (maxB * 0.4)) currentChips
           else if trueCount \<le> - 2 then minB
           else minB)"

definition shouldTakeInsurance :: "cardCounter \<Rightarrow> bool" where
  "shouldTakeInsurance c = (if \<not> enabled c then False else getTrueCount c \<ge> 3)"

definition getStrategyModifier :: "cardCounter \<Rightarrow> real" where
  "getStrategyModifier c =
     (if \<not> enabled c then 0
      else max (- 0.1) (min 0.1 (getTrueCount c * 0.02)))"

definition reset :: "cardCounter \<Rightarrow> cardCounter" where
  "reset c = c\<lparr>runningCount := 0, cardsDealt := 0\<rparr>"

definition setEnabled :: "cardCounter \<Rightarrow> bool \<Rightarrow> cardCounter" where
  "setEnabled c en = c\<lparr>enabled := en\<rparr>"

text \<open>Observing a sequence of cards, one \<open>updateCount\<close> call per card, in order.\<close>

definition observeAll :: "cardCounter \<Rightarrow> card list \<Rightarrow> cardCounter" where
  "observeAll c cds = foldl updateCount c cds"

text \<open>The calls the claims range over: \<open>observe(card)\<close> and \<open>reset()\<close>.\<close>

datatype counterCall = Observe card | Reset

fun applyCall :: "cardCounter \<Rightarrow> counterCall \<Rightarrow> cardCounter" where
  "applyCall c (Observe cd) = updateCount c cd"
| "applyCall c Reset = reset c"

definition runCalls :: "cardCounter \<Rightarrow> counterCall list \<Rightarrow> cardCounter" where
  "runCalls c calls = foldl applyCall c calls"

text \<open>
  The Hi-Lo weight as the specification words it: ranks 2 to 6 weigh +1, the ranks
  10, J, Q, K and A weigh -1, and 7 to 9 (like any other string) weigh 0.
\<close>

definition hiLoWeight :: "card \<Rightarrow> int" where
  "hiLoWeight cd =
     (if rank cd \<in> {''2'', ''3'', ''4'', ''5'', ''6''} then 1
      else if rank cd \<in> {''10'', ''J'', ''Q'', ''K'', ''A''} then - 1
      else 0)"

text \<open>The number of \<open>observe\<close> calls after the last \<open>reset\<close> of a call sequence.\<close>

fun isObserve :: "counterCall \<Rightarrow> bool" where
  "isObserve (Observe cd) = True"
| "isObserve Reset = False"

definition observedSinceReset :: "counterCall list \<Rightarrow> nat" where
  "observedSinceReset calls = length (takeWhile isObserve (rev calls))"

section \<open>OptimalStrategy\<close>

subsection \<open>Rank values\<close>

text \<open>
  \<open>parseInt(rank)\<close> without a radix: leading white space is skipped, a sign is read,
  a \<open>0x\<close> prefix selects base 16, and the longest prefix of digits is converted.  The
  result is \<open>NaN\<close> (here \<open>None\<close>) when there is no digit.  Strings are ASCII here.
\<close>

definition isWhiteSpace :: "char \<Rightarrow> bool" where
  "isWhiteSpace ch = (of_char ch \<in> {9, 10, 11, 12, 13, 32 :: nat})"

definition digitValue :: "char \<Rightarrow> nat option" where
  "digitValue ch =
     (let n = (of_char ch :: nat) in
      if 48 \<le> n \<and> n \<le> 57 then Some (n - 48)
      else if 97 \<le> n \<and> n \<le> 102 then Some (n - 87)
      else if 65 \<le> n \<and> n \<le> 70 then Some (n - 55)
      else None)"

definition isDigitOf :: "nat \<Rightarrow> char \<Rightarrow> bool" where
  "isDigitOf radix ch = (case digitValue ch of None \<Rightarrow> False | Some d \<Rightarrow> d < radix)"

definition parseInt :: "string \<Rightarrow> int option" where
  "parseInt str =
     (let s1 = dropWhile isWhiteSpace str;
          negative = (s1 \<noteq> [] \<and> hd s1 = CHR ''-'');
          s2 = (if s1 \<noteq> [] \<and> (hd s1 = CHR ''-'' \<or> hd s1 = CHR ''+'') then tl s1 else s1);
          hex = (take 2 s2 = ''0x'' \<or> take 2 s2 = ''0X'');
          radix = (if hex then 16 else 10);
          s3 = (if hex then drop 2 s2 else s2);
          digits = takeWhile (isDigitOf radix) s3
      in if digits = [] then None
         else
           let magnitude = foldl (\<lambda>acc ch. acc * radix + the (digitValue ch)) 0 digits
           in Some (if negative then - int magnitude else int magnitude))"

definition getRankValue :: "string \<Rightarrow> int option" where
  "getRankValue r =
     (if r = ''A'' then Some 11
      else if r \<in> set [''K'', ''Q'', ''J''] then Some 10
      else parseInt r)"

subsection \<open>Dealer outcome tables\<close>

record dealerDist =
  p17 :: real
  p18 :: real
  p19 :: real
  p20 :: real
  p21 :: real
  bust :: real

definition mkDist :: "real \<Rightarrow> real \<Rightarrow> real \<Rightarrow> real \<Rightarrow> real \<Rightarrow> real \<Rightarrow> dealerDist" where
  "mkDist a b c d e f = \<lparr> p17 = a, p18 = b, p19 = c, p20 = d, p21 = e, bust = f \<rparr>"

text \<open>
  \<open>distributions[dealerUpcard] || distributions[10]\<close>: an upcard value without a row
  (also \<open>NaN\<close>) reads the row of 10.
\<close>

definition getDealerFinalDistribution :: "int option \<Rightarrow> dealerDist" where
  "getDealerFinalDistribution upcard =
     (if upcard = Some 2 then mkDist 0.1389 0.1311 0.1310 0.1176 0.0775 0.3539
      else if upcard = Some 3 then mkDist 0.1299 0.1299 0.1299 0.1164 0.0693 0.3745
      else if upcard = Some 4 then mkDist 0.1199 0.1199 0.1199 0.1152 0.1050 0.4002
      else if upcard = Some 5 then mkDist 0.1199 0.1169 0.1169 0.1070 0.1111 0.4282
      else if upcard = Some 6 then mkDist 0.1654 0.1061 0.1061 0.1061 0.0958 0.4205
      else if upcard = Some 7 then mkDist 0.3691 0.1378 0.0790 0.0790 0.0732 0.2619
      else if upcard = Some 8 then mkDist 0.1289 0.3594 0.1289 0.0727 0.0718 0.2383
      else if upcard = Some 9 then mkDist 0.1189 0.1060 0.3481 0.1189 0.0780 0.2301
      else if upcard = Some 10 then mkDist 0.1102 0.1102 0.1102 0.3438 0.1127 0.2129
      else if upcard = Some 11 then mkDist 0.1304 0.1304 0.1304 0.3045 0.1865 0.1178
      else mkDist 0.1102 0.1102 0.1102 0.3438 0.1127 0.2129)"

text \<open>\<open>dealerDist[dealerTotal] || 0\<close> for the totals the loop of \<open>calculateStandEV\<close> visits.\<close>

definition distAt :: "dealerDist \<Rightarrow> int \<Rightarrow> real" where
  "distAt d t =
     (if t = 17 then p17 d else if t = 18 then p18 d else if t = 19 then p19 d
      else if t = 20 then p20 d else if t = 21 then p21 d else 0)"

subsection \<open>Expected values\<close>

definition calculateStandEV :: "int \<Rightarrow> int option \<Rightarrow> real" where
  "calculateStandEV playerTotal upcard =
     (if playerTotal > 21 then - 1
      else if playerTotal = 21 then bust (getDealerFinalDistribution upcard)
      else
        let dist = getDealerFinalDistribution upcard
        in foldl (\<lambda>ev dealerTotal.
                    let prob = distAt dist dealerTotal
                    in if dealerTotal < playerTotal then ev + prob * 1
                       else if dealerTotal = playerTotal then ev + prob * 0
                       else ev + prob * (- 1))
             (0 + bust dist * 1) [17, 18, 19, 20, 21])"

text \<open>The next-card distribution, in the order \<open>Object.entries\<close> lists integer keys.\<close>

definition cardProbs :: "(int \<times> real) list" where
  "cardProbs =
     [(1, 32 / 416), (2, 32 / 416), (3, 32 / 416), (4, 32 / 416), (5, 32 / 416),
      (6, 32 / 416), (7, 32 / 416), (8, 32 / 416), (9, 32 / 416), (10, 128 / 416)]"

text \<open>
  The first half of the loop body of \<open>calculateHitEV\<close>: the total and the soft flag
  after drawing a card of the given value.
\<close>

definition drawCard :: "int \<Rightarrow> bool \<Rightarrow> int \<Rightarrow> int \<times> bool" where
  "drawCard playerTotal soft cardValue =
     (let (t1, s1) =
            (if cardValue = 1 then
               (if playerTotal + 11 \<le> 21 then (playerTotal + 11, True) else (playerTotal + 1, soft))
             else (playerTotal + cardValue, soft))
      in if s1 \<and> t1 > 21 then (t1 - 10, False) else (t1, s1))"

function calculateHitEV :: "int \<Rightarrow> int option \<Rightarrow> bool \<Rightarrow> nat \<Rightarrow> real" where
  "calculateHitEV playerTotal upcard soft depth =
     (if playerTotal > 21 then - 1
      else if depth > 5 then calculateStandEV playerTotal upcard
      else
        foldl (\<lambda>ev (cardValue, prob).
                 case drawCard playerTotal soft cardValue of
                   (newTotal, newIsSoft) \<Rightarrow>
                     if newTotal > 21 then ev + prob * (- 1)
                     else if newTotal = 21 then ev + prob * calculateStandEV 21 upcard
                     else
                       let standEV = calculateStandEV newTotal upcard;
                           hitAgainEV = calculateHitEV newTotal upcard newIsSoft (depth + 1)
                       in ev + prob * max standEV hitAgainEV)
          0 cardProbs)"
  by pat_completeness auto
termination
  by (relation "measure (\<lambda>(playerTotal, upcard, soft, depth). 6 - depth)") auto

text \<open>
  The same control flow, counting instead of valuing: the number of invocations of
  \<open>calculateHitEV\<close> that a call sets off below itself.
\<close>

function calculateHitEV_calls :: "int \<Rightarrow> bool \<Rightarrow> nat \<Rightarrow> nat" where
  "calculateHitEV_calls playerTotal soft depth =
     (if playerTotal > 21 then 0
      else if depth > 5 then 0
      else
        foldl (\<lambda>n (cardValue, prob).
                 case drawCard playerTotal soft cardValue of
                   (newTotal, newIsSoft) \<Rightarrow>
                     if newTotal > 21 then n
                     else if newTotal = 21 then n
                     else n + (1 + calculateHitEV_calls newTotal newIsSoft (depth + 1)))
          0 cardProbs)"
  by pat_completeness auto
termination
  by (relation "measure (\<lambda>(playerTotal, soft, depth). 6 - depth)") auto

declare calculateHitEV.simps [simp del]
declare calculateHitEV_calls.simps [simp del]

text \<open>
  A bound for that number when \<open>k\<close> levels of expansion remain: ten cards per level.
\<close>

fun callBound :: "nat \<Rightarrow> nat" where
  "callBound 0 = 0"
| "callBound (Suc k) = 10 * (1 + callBound k)"

definition calculateDoubleEV :: "int \<Rightarrow> int option \<Rightarrow> bool \<Rightarrow> real" where
  "calculateDoubleEV playerTotal upcard soft =
     foldl (\<lambda>ev (cardValue, prob).
              let t1 = (if cardValue = 1 then
                          (if playerTotal + 11 \<le> 21 then playerTotal + 11 else playerTotal + 1)
                        else playerTotal + cardValue);
                  newTotal = (if soft \<and> t1 > 21 then t1 - 10 else t1);
                  standEV = calculateStandEV newTotal upcard
              in ev + prob * standEV * 2)
       0 cardProbs"

text \<open>
  A pair rank without a value gives \<open>calculateSplitEV\<close> the hand total \<open>NaN\<close>.  Every
  comparison with \<open>NaN\<close> is false and every sum with it is \<open>NaN\<close> again, so the two
  functions below are \<open>calculateStandEV\<close> and \<open>calculateHitEV\<close> on that total: standing
  counts every dealer total as a loss, and hitting takes the last branch of the loop for
  every card.
\<close>

definition calculateStandEVNaN :: "int option \<Rightarrow> real" where
  "calculateStandEVNaN upcard =
     (let dist = getDealerFinalDistribution upcard
      in foldl (\<lambda>ev dealerTotal.
                  let prob = distAt dist dealerTotal
                  in ev + prob * (- 1))
           (0 + bust dist * 1) [17, 18, 19, 20, 21])"

function calculateHitEVNaN :: "int option \<Rightarrow> nat \<Rightarrow> real" where
  "calculateHitEVNaN upcard depth =
     (if depth > 5 then calculateStandEVNaN upcard
      else
        foldl (\<lambda>ev (cardValue, prob).
                 let standEV = calculateStandEVNaN upcard;
                     hitAgainEV = calculateHitEVNaN upcard (depth + 1)
                 in ev + prob * max standEV hitAgainEV)
          0 cardProbs)"
  by pat_completeness auto
termination
  by (relation "measure (\<lambda>(upcard, depth). 6 - depth)") auto

declare calculateHitEVNaN.simps [simp del]

definition calculateSplitEV :: "string \<Rightarrow> int option \<Rightarrow> real" where
  "calculateSplitEV pairRank upcard =
     (if pairRank = ''A'' then
        foldl (\<lambda>evPerHand (cardValue, prob).
                 let t0 = 11 + cardValue;
                     handTotal = (if t0 > 21 then 1 + cardValue else t0)
                 in evPerHand + prob * calculateStandEV handTotal upcard)
          0 cardProbs * 2
      else
        case getRankValue pairRank of
          Some pairValue \<Rightarrow> calculateHitEV pairValue upcard False 0 * 2
        | None \<Rightarrow> calculateHitEVNaN upcard 0 * 2)"

subsection \<open>Choosing the action\<close>

text \<open>
  A JavaScript number that may be infinite or \<open>NaN\<close>.  The expected value of an
  ineligible action is \<open>-Infinity\<close>, and the comparator of the sort subtracts such
  values.
\<close>

datatype jsnum = NaN | NegInfinity | PosInfinity | Finite real

fun jsAdd :: "jsnum \<Rightarrow> jsnum \<Rightarrow> jsnum" where
  "jsAdd (Finite x) (Finite y) = Finite (x + y)"
| "jsAdd NaN _ = NaN"
| "jsAdd _ NaN = NaN"
| "jsAdd NegInfinity PosInfinity = NaN"
| "jsAdd PosInfinity NegInfinity = NaN"
| "jsAdd NegInfinity _ = NegInfinity"
| "jsAdd _ NegInfinity = NegInfinity"
| "jsAdd PosInfinity _ = PosInfinity"
| "jsAdd _ PosInfinity = PosInfinity"

fun jsNeg :: "jsnum \<Rightarrow> jsnum" where
  "jsNeg (Finite x) = Finite (- x)"
| "jsNeg NaN = NaN"
| "jsNeg NegInfinity = PosInfinity"
| "jsNeg PosInfinity = NegInfinity"

definition jsSub :: "jsnum \<Rightarrow> jsnum \<Rightarrow> jsnum" where
  "jsSub a b = jsAdd a (jsNeg b)"

text \<open>Division by a positive finite constant.\<close>

fun jsDivPos :: "jsnum \<Rightarrow> real \<Rightarrow> jsnum" where
  "jsDivPos (Finite x) k = Finite (x / k)"
| "jsDivPos a k = a"

text \<open>\<open>Math.max(lo, x)\<close> and \<open>Math.min(hi, x)\<close> with a finite first argument.\<close>

fun jsMaxWith :: "real \<Rightarrow> jsnum \<Rightarrow> jsnum" where
  "jsMaxWith lo (Finite x) = Finite (max lo x)"
| "jsMaxWith lo NaN = NaN"
| "jsMaxWith lo NegInfinity = Finite lo"
| "jsMaxWith lo PosInfinity = PosInfinity"

fun jsMinWith :: "real \<Rightarrow> jsnum \<Rightarrow> jsnum" where
  "jsMinWith hi (Finite x) = Finite (min hi x)"
| "jsMinWith hi NaN = NaN"
| "jsMinWith hi NegInfinity = NegInfinity"
| "jsMinWith hi PosInfinity = Finite hi"

record botDecision =
  action :: action
  confidence :: jsnum
  expectedValue :: jsnum
  betSize :: "real option"

record gameSituation =
  playerHand :: "card list"
  playerTotal :: int
  isSoft :: bool
  dealerUpcard :: card
  trueCount :: real
  chipStack :: real
  currentRank :: int
  handsRemaining :: int
  canDouble :: bool
  canSplit :: bool

text \<open>
  The comparator \<open>(a, b) => b.ev - a.ev\<close> as \<open>Array.prototype.sort\<close> reads it: negative
  when \<open>a\<close> goes first, positive when \<open>b\<close> goes first, and a \<open>NaN\<close> difference counts
  as zero.
\<close>

fun comparatorSign :: "jsnum \<Rightarrow> int" where
  "comparatorSign (Finite d) = (if d < 0 then - 1 else if d > 0 then 1 else 0)"
| "comparatorSign NaN = 0"
| "comparatorSign NegInfinity = - 1"
| "comparatorSign PosInfinity = 1"

definition compareEV :: "(action \<times> jsnum) \<Rightarrow> (action \<times> jsnum) \<Rightarrow> int" where
  "compareEV a b = comparatorSign (jsSub (snd b) (snd a))"

text \<open>
  \<open>Array.prototype.sort\<close> is stable.  For a comparator that is a consistent ordering
  every stable sort returns the same array; it is computed here by insertion.
\<close>

fun insertAction :: "(action \<times> jsnum) \<Rightarrow> (action \<times> jsnum) list \<Rightarrow> (action \<times> jsnum) list" where
  "insertAction a [] = [a]"
| "insertAction a (b # bs) = (if compareEV a b \<le> 0 then a # b # bs else b # insertAction a bs)"

fun sortActions :: "(action \<times> jsnum) list \<Rightarrow> (action \<times> jsnum) list" where
  "sortActions [] = []"
| "sortActions (a # as) = insertAction a (sortActions as)"

text \<open>The loop that applies the count modifier to the entries of \<open>actions\<close>.\<close>

definition applyCountModifier :: "real \<Rightarrow> (action \<times> jsnum) \<Rightarrow> (action \<times> jsnum)" where
  "applyCountModifier countModifier a =
     (if fst a = Stand \<and> countModifier > 0 then (fst a, jsAdd (snd a) (Finite countModifier))
      else if fst a = Hit \<and> countModifier < 0 then
        (fst a, jsAdd (snd a) (Finite (\<bar>countModifier\<bar> * 0.5)))
      else a)"

text \<open>
  \<open>getDecision\<close>, without its log lines.  The configuration and the card counter that
  the class holds are arguments; the learning adjustment is a finite number.
\<close>

definition getDecision :: "config \<Rightarrow> cardCounter \<Rightarrow> gameSituation \<Rightarrow> real \<Rightarrow> botDecision" where
  "getDecision cfg counter situation learningAdjustment =
     (let upcard = getRankValue (rank (dealerUpcard situation));
          standEV = Finite (calculateStandEV (playerTotal situation) upcard);
          hitEV = Finite (calculateHitEV (playerTotal situation) upcard (isSoft situation) 0);
          doubleEV =
            (if canDouble situation then
               Finite (calculateDoubleEV (playerTotal situation) upcard (isSoft situation))
             else NegInfinity);
          splitEV =
            (if canSplit situation \<and> length (playerHand situation) = 2
                \<and> rank (playerHand situation ! 0) = rank (playerHand situation ! 1)
             then Finite (calculateSplitEV (rank (playerHand situation ! 0)) upcard)
             else NegInfinity);
          actions0 =
            [(Stand, jsAdd standEV (Finite learningAdjustment)),
             (Hit, jsAdd hitEV (Finite learningAdjustment)),
             (Double, jsAdd doubleEV (Finite learningAdjustment)),
             (Split, jsAdd splitEV (Finite learningAdjustment))];
          countModifier = getStrategyModifier counter;
          actions1 = map (applyCountModifier countModifier) actions0;
          sorted = sortActions actions1;
          bestAction = sorted ! 0;
          secondBestEV = snd (sorted ! 1);
          conf = jsMinWith 1 (jsMaxWith 0 (jsDivPos (jsSub (snd bestAction) secondBestEV) 0.5))
      in \<lparr> action = fst bestAction,
           confidence = conf,
           expectedValue = snd bestAction,
           betSize = Some (getBet cfg counter (chipStack situation)) \<rparr>)"

text \<open>Value classes used when reasoning about the sort.\<close>

definition finiteOrNegInf :: "jsnum \<Rightarrow> bool" where
  "finiteOrNegInf v = (case v of Finite r \<Rightarrow> True | NegInfinity \<Rightarrow> True | _ \<Rightarrow> False)"

definition isFinite :: "jsnum \<Rightarrow> bool" where
  "isFinite v = (case v of Finite r \<Rightarrow> True | _ \<Rightarrow> False)"

section \<open>Learning data\<close>

text \<open>
  The record types of \<open>types.ts\<close>.  A field name that two interfaces share carries a
  prefix in all but one of them.  Counters are integers, all other numbers are reals,
  time stamps are integers.
\<close>

datatype handResult = Win | Loss | Push

definition actionName :: "action \<Rightarrow> string" where
  "actionName a = (case a of Hit \<Rightarrow> ''hit'' | Stand \<Rightarrow> ''stand''
                   | Double \<Rightarrow> ''double'' | Split \<Rightarrow> ''split'')"

record gameExperience =
  expSessionId :: string
  handNumber :: int
  expPlayerHand :: "card list"
  expPlayerTotal :: int
  expDealerUpcard :: card
  dealerFinalHand :: "card list option"
  dealerTotal :: "int option"
  expTrueCount :: real
  expChipStack :: real
  expCurrentRank :: int
  expHandsRemaining :: int
  actionTaken :: action
  expBetSize :: real
  handResult :: handResult
  chipsWon :: real
  timestamp :: int
  opponentWallets :: "string list"

record opponentSessionData =
  walletAddress :: string
  oppFinalRank :: real
  oppFinalChips :: real
  oppHandsWon :: real
  avgBetSize :: real
  totalHits :: real
  totalStands :: real
  totalDoubles :: real
  totalSplits :: real

record sessionResult =
  sessionId :: string
  finalRank :: real
  totalPlayers :: real
  finalChips :: real
  handsPlayed :: real
  handsWon :: real
  totalWagered :: real
  netProfit :: real
  payout :: real
  opponents :: "opponentSessionData list"
  completedAt :: int

record profileStats =
  statAvgBetSize :: real
  avgFinalChips :: real
  avgFinalRank :: real
  hitFrequency :: real
  standFrequency :: real
  doubleFrequency :: real
  splitFrequency :: real
  aggressionScore :: real
  skillScore :: real
  consistencyScore :: real

record profilePatterns =
  hitOn16VsDealer7 :: real
  standOn12VsDealer2 :: real
  doubleOn11 :: real
  splitAces :: real
  split10s :: real
  increaseBetAfterWin :: real
  increaseBetAfterLoss :: real
  averageRiskLevel :: real

record opponentProfile =
  profWalletAddress :: string
  displayName :: "string option"
  sessionsPlayed :: int
  lastSeenAt :: int
  firstSeenAt :: int
  bobWins :: int
  opponentWins :: int
  stats :: profileStats
  patterns :: profilePatterns
  weaknesses :: "string list"

section \<open>ExperienceTracker\<close>

record experienceTracker =
  experiences :: "gameExperience list"
  sessions :: "sessionResult list"

definition maxExperiences :: nat where
  "maxExperiences = 1000"

definition maxSessions :: nat where
  "maxSessions = 100"

text \<open>The constructor; an absent argument leaves the empty array.\<close>

definition newExperienceTracker ::
  "gameExperience list option \<Rightarrow> sessionResult list option \<Rightarrow> experienceTracker" where
  "newExperienceTracker existingExperiences existingSessions =
     \<lparr> experiences = (case existingExperiences of Some es \<Rightarrow> es | None \<Rightarrow> []),
       sessions = (case existingSessions of Some ss \<Rightarrow> ss | None \<Rightarrow> []) \<rparr>"

text \<open>\<open>push\<close> followed by one \<open>shift\<close> when the buffer is over its limit.\<close>

definition recordHand :: "experienceTracker \<Rightarrow> gameExperience \<Rightarrow> experienceTracker" where
  "recordHand t experience =
     (let es = experiences t @ [experience]
      in t\<lparr>experiences := (if length es > maxExperiences then tl es else es)\<rparr>)"

definition trackerRecordSession :: "experienceTracker \<Rightarrow> sessionResult \<Rightarrow> experienceTracker" where
  "trackerRecordSession t session =
     (let ss = sessions t @ [session]
      in t\<lparr>sessions := (if length ss > maxSessions then tl ss else ss)\<rparr>)"

definition getLearnedEVAdjustment :: "experienceTracker \<Rightarrow> int \<Rightarrow> string \<Rightarrow> string \<Rightarrow> real" where
  "getLearnedEVAdjustment t ptotal dealerUpcardRank act =
     (let relevantExperiences =
            filter (\<lambda>e. expPlayerTotal e = ptotal
                        \<and> rank (expDealerUpcard e) = dealerUpcardRank
                        \<and> actionName (actionTaken e) = act)
              (experiences t)
      in if length relevantExperiences < 5 then 0
         else
           let avgOutcome = foldl (\<lambda>sum e. sum + chipsWon e) 0 relevantExperiences
                              / real (length relevantExperiences)
           in max (- 0.2) (min 0.2 (avgOutcome / 100)))"

text \<open>
  The words of the specification for the same quantity: the hands that match the
  triple, their average chip result, and a clamp to an interval.
\<close>

definition matchingHands :: "gameExperience list \<Rightarrow> int \<Rightarrow> string \<Rightarrow> string \<Rightarrow> gameExperience list" where
  "matchingHands es ptotal dealerUpcardRank act =
     [e \<leftarrow> es. expPlayerTotal e = ptotal \<and> rank (expDealerUpcard e) = dealerUpcardRank
                \<and> actionName (actionTaken e) = act]"

definition averageChipsWon :: "gameExperience list \<Rightarrow> real" where
  "averageChipsWon es = sum_list (map chipsWon es) / real (length es)"

definition clamp :: "real \<Rightarrow> real \<Rightarrow> real \<Rightarrow> real" where
  "clamp lo hi x = (if x < lo then lo else if hi < x then hi else x)"

section \<open>OpponentProfiler\<close>

text \<open>The profiler holds a \<open>Map\<close> from wallet address to profile.\<close>

type_synonym profiles = "string \<rightharpoonup> opponentProfile"

text \<open>\<open>Date.now()\<close> is the argument \<open>now\<close> wherever the code reads the clock.\<close>

definition createNewProfile :: "string \<Rightarrow> int \<Rightarrow> opponentProfile" where
  "createNewProfile wallet now =
     \<lparr> profWalletAddress = wallet, displayName = None, sessionsPlayed = 0,
       lastSeenAt = now, firstSeenAt = now, bobWins = 0, opponentWins = 0,
       stats = \<lparr> statAvgBetSize = 0, avgFinalChips = 0, avgFinalRank = 0,
                 hitFrequency = 0, standFrequency = 0, doubleFrequency = 0,
                 splitFrequency = 0, aggressionScore = 0.5, skillScore = 0.5,
                 consistencyScore = 0.5 \<rparr>,
       patterns = \<lparr> hitOn16VsDealer7 = 0, standOn12VsDealer2 = 0, doubleOn11 = 0,
                    splitAces = 0, split10s = 0, increaseBetAfterWin = 0,
                    increaseBetAfterLoss = 0, averageRiskLevel = 0.5 \<rparr>,
       weaknesses = [] \<rparr>"

text \<open>
  \<open>(currentAvg * n + newValue) / (n + 1)\<close>.  The callers pass a session count of at least
  one, so the divisor is never zero.
\<close>

definition runningAverage :: "real \<Rightarrow> real \<Rightarrow> int \<Rightarrow> real" where
  "runningAverage currentAvg newValue n =
     (currentAvg * real_of_int n + newValue) / (real_of_int n + 1)"

definition updateFrequency :: "real \<Rightarrow> real \<Rightarrow> int \<Rightarrow> real" where
  "updateFrequency current observed weight =
     (let alpha = 1 / max 1 (real_of_int weight)
      in current * (1 - alpha) + observed * alpha)"

text \<open>
  \<open>updateStats\<close>: the statistics block after a session, from the old block, the session
  data and the session count \<open>n\<close> that the profile carries at that point.
\<close>

definition updatedStats :: "profileStats \<Rightarrow> opponentSessionData \<Rightarrow> int \<Rightarrow> profileStats" where
  "updatedStats st0 sessionData n =
     (let st1 = st0\<lparr> statAvgBetSize := runningAverage (statAvgBetSize st0) (avgBetSize sessionData) n,
                     avgFinalChips := runningAverage (avgFinalChips st0) (oppFinalChips sessionData) n,
                     avgFinalRank := runningAverage (avgFinalRank st0) (oppFinalRank sessionData) n \<rparr>;
          totalActions = totalHits sessionData + totalStands sessionData
                           + totalDoubles sessionData + totalSplits sessionData
      in if totalActions > 0 then
           st1\<lparr> hitFrequency :=
                  runningAverage (hitFrequency st1) (totalHits sessionData / totalActions) n,
                standFrequency :=
                  runningAverage (standFrequency st1) (totalStands sessionData / totalActions) n,
                doubleFrequency :=
                  runningAverage (doubleFrequency st1) (totalDoubles sessionData / totalActions) n,
                splitFrequency :=
                  runningAverage (splitFrequency st1) (totalSplits sessionData / totalActions) n \<rparr>
         else st1)"

definition updateStats :: "opponentProfile \<Rightarrow> opponentSessionData \<Rightarrow> opponentProfile" where
  "updateStats profile sessionData =
     profile\<lparr>stats := updatedStats (stats profile) sessionData (sessionsPlayed profile)\<rparr>"

text \<open>
  \<open>calculateScores\<close>.  The aggression score is the mean of the normalised average bet
  and of twice the double frequency.  The skill score starts at 0.5; each \<open>if\<close> of the
  source adds its amount or nothing, in the order of the source; the sum is clamped.
\<close>

definition aggressionOf :: "opponentProfile \<Rightarrow> real" where
  "aggressionOf profile =
     (let avgBetNormalized = min 1 (statAvgBetSize (stats profile) / 75);
          doubleFreqNormalized = doubleFrequency (stats profile) * 2
      in (avgBetNormalized + doubleFreqNormalized) / 2)"

definition rawSkillOf :: "opponentProfile \<Rightarrow> real" where
  "rawSkillOf profile =
     0.5
     + (if doubleOn11 (patterns profile) > 0.8 then 0.1 else 0)
     + (if splitAces (patterns profile) > 0.8 then 0.1 else 0)
     + (if hitOn16VsDealer7 (patterns profile) > 0.6 then 0.05 else 0)
     - (if split10s (patterns profile) > 0.05 then 0.3 else 0)
     - (if standOn12VsDealer2 (patterns profile) > 0.6 then 0.1 else 0)
     - (if avgFinalRank (stats profile) > real_of_int (sessionsPlayed profile) * 0.6
        then 0.1 else 0)"

definition calculateScores :: "opponentProfile \<Rightarrow> opponentProfile" where
  "calculateScores profile =
     profile\<lparr>stats := (stats profile)
       \<lparr> aggressionScore := aggressionOf profile,
         skillScore := max 0 (min 1 (rawSkillOf profile)),
         consistencyScore := 0.7 \<rparr>\<rparr>"

text \<open>
  \<open>identifyWeaknesses\<close>.  The array starts empty; each \<open>if\<close> of the source pushes its
  tag or nothing, in the order of the source; the result replaces the old array.
\<close>

definition weaknessTags :: "opponentProfile \<Rightarrow> string list" where
  "weaknessTags profile =
     []
     @ (if aggressionScore (stats profile) > 0.75 then [''overly_aggressive''] else [])
     @ (if aggressionScore (stats profile) < 0.25 then [''overly_conservative''] else [])
     @ (if skillScore (stats profile) < 0.4 then [''poor_strategy''] else [])
     @ (if split10s (patterns profile) > 0.05 then [''splits_tens''] else [])
     @ (if doubleOn11 (patterns profile) < 0.5 then [''misses_double_opportunities''] else [])
     @ (if doubleFrequency (stats profile) < 0.05 then [''rarely_doubles''] else [])"

definition identifyWeaknesses :: "opponentProfile \<Rightarrow> opponentProfile" where
  "identifyWeaknesses profile = profile\<lparr>weaknesses := weaknessTags profile\<rparr>"

text \<open>
  The first two steps of \<open>updateProfile\<close>: the encounter history and the win/loss
  record against the opponent.
\<close>

definition recordEncounter ::
  "opponentProfile \<Rightarrow> opponentSessionData \<Rightarrow> real \<Rightarrow> int \<Rightarrow> opponentProfile" where
  "recordEncounter p0 sessionData bobRank now =
     (let p1 = p0\<lparr>sessionsPlayed := sessionsPlayed p0 + 1, lastSeenAt := now\<rparr>
      in if bobRank < oppFinalRank sessionData then p1\<lparr>bobWins := bobWins p1 + 1\<rparr>
         else if bobRank > oppFinalRank sessionData then
           p1\<lparr>opponentWins := opponentWins p1 + 1\<rparr>
         else p1)"

definition updateProfile ::
  "profiles \<Rightarrow> string \<Rightarrow> opponentSessionData \<Rightarrow> real \<Rightarrow> int \<Rightarrow> profiles" where
  "updateProfile ps wallet sessionData bobRank now =
     (let p0 = (case ps wallet of Some p \<Rightarrow> p | None \<Rightarrow> createNewProfile wallet now);
          p2 = recordEncounter p0 sessionData bobRank now;
          p3 = updateStats p2 sessionData;
          p4 = calculateScores p3;
          p5 = identifyWeaknesses p4
      in ps(wallet \<mapsto> p5))"

text \<open>
  \<open>updateWithHandObservation\<close>: the only method that changes a pattern frequency.  It
  returns early for an unknown wallet and does not touch the weaknesses.
\<close>

definition updateWithHandObservation ::
  "profiles \<Rightarrow> string \<Rightarrow> string \<Rightarrow> string \<Rightarrow> profiles" where
  "updateWithHandObservation ps wallet situation act =
     (case ps wallet of
        None \<Rightarrow> ps
      | Some profile \<Rightarrow>
          let pt = patterns profile;
              n = sessionsPlayed profile;
              pt' =
                (if situation = ''16_vs_7'' \<and> act = ''hit'' then
                   pt\<lparr>hitOn16VsDealer7 := updateFrequency (hitOn16VsDealer7 pt) 1 n\<rparr>
                 else if situation = ''12_vs_2'' \<and> act = ''stand'' then
                   pt\<lparr>standOn12VsDealer2 := updateFrequency (standOn12VsDealer2 pt) 1 n\<rparr>
                 else if situation = ''11'' \<and> act = ''double'' then
                   pt\<lparr>doubleOn11 := updateFrequency (doubleOn11 pt) 1 n\<rparr>
                 else if situation = ''AA'' \<and> act = ''split'' then
                   pt\<lparr>splitAces := updateFrequency (splitAces pt) 1 n\<rparr>
                 else if situation = ''TT'' \<and> act = ''split'' then
                   pt\<lparr>split10s := updateFrequency (split10s pt) 1 n\<rparr>
                 else pt)
          in ps(wallet \<mapsto> profile\<lparr>patterns := pt'\<rparr>))"

section \<open>MemoryManager\<close>

record performance =
  winRateBySession :: "real list"
  avgRankBySession :: "real list"
  avgChipsBySession :: "real list"
  totalWins :: int
  totalTop3 :: int
  totalProfit :: real
  winRateBeforeLearning :: real
  winRateAfterLearning :: real

record strategyAdjustment =
  adjTimestamp :: int
  adjSituation :: string
  adjustment :: string
  reason :: string

record bobMemory =
  version :: string
  totalSessionsPlayed :: int
  totalHandsPlayed :: int
  memLearningEnabled :: bool
  lastUpdated :: int
  opponentProfiles :: profiles
  performance :: performance
  recentExperiences :: "gameExperience list"
  recentSessions :: "sessionResult list"
  strategyAdjustments :: "strategyAdjustment list"

record memoryManager =
  memoryFilePath :: string
  memory :: bobMemory

text \<open>
  Exceptions are values.  \<open>NotFound\<close> and \<open>AlreadyExists\<close> are the two classes of
  \<open>Deno.errors\<close> that the code tests for; every other exception is an \<open>OtherFailure\<close>.
\<close>

datatype error = NotFound | AlreadyExists | OtherFailure string

text \<open>
  A call either returns or throws.  Objects are mutated in place, so the state reached
  at the moment of the throw is kept with the exception.
\<close>

datatype 'a completion = Returned 'a | Threw error 'a

text \<open>
  A line written through the logger: its level and the fixed head of its message.  The
  lines of the memory manager, of the coordinator and of its caller are kept; those of
  the tracker and of the profiler are not.
\<close>

datatype logEntry = LogDebug string | LogInfo string | LogWarn string | LogError string

definition createEmptyMemory :: "config \<Rightarrow> int \<Rightarrow> bobMemory" where
  "createEmptyMemory cfg now =
     \<lparr> version = ''1.0.0'', totalSessionsPlayed = 0, totalHandsPlayed = 0,
       memLearningEnabled = botEnabled cfg, lastUpdated = now,
       opponentProfiles = Map.empty,
       performance = \<lparr> winRateBySession = [], avgRankBySession = [], avgChipsBySession = [],
                       totalWins = 0, totalTop3 = 0, totalProfit = 0,
                       winRateBeforeLearning = 0, winRateAfterLearning = 0 \<rparr>,
       recentExperiences = [], recentSessions = [], strategyAdjustments = [] \<rparr>"

definition newMemoryManager :: "config \<Rightarrow> string \<Rightarrow> int \<Rightarrow> memoryManager" where
  "newMemoryManager cfg path now = \<lparr> memoryFilePath = path, memory = createEmptyMemory cfg now \<rparr>"

text \<open>
  What \<open>JSON.parse\<close> returned for the memory file: the profiles as stored (an array,
  or absent), and the other fields as a memory whose profile map is not read.
\<close>

record storedMemory =
  storedProfiles :: "opponentProfile list option"
  storedFields :: bobMemory

text \<open>
  \<open>load\<close>.  Its argument is the outcome of the body of the \<open>try\<close> block up to the
  parsed value: the value, or the exception that reading or parsing raised.
\<close>

definition load ::
  "memoryManager \<Rightarrow> error + storedMemory \<Rightarrow> logEntry list \<times> (memoryManager \<times> bobMemory) completion" where
  "load mm readResult =
     (case readResult of
        Inr loaded \<Rightarrow>
          let profilesMap =
                foldl (\<lambda>m profile. m(profWalletAddress profile \<mapsto> profile)) Map.empty
                  (case storedProfiles loaded of Some ps \<Rightarrow> ps | None \<Rightarrow> []);
              mem = (storedFields loaded)\<lparr>opponentProfiles := profilesMap\<rparr>
          in ([LogInfo ''[MemoryManager] Loaded memory''],
              Returned (mm\<lparr>memory := mem\<rparr>, mem))
      | Inl e \<Rightarrow>
          if e = NotFound then
            ([LogInfo ''[MemoryManager] No existing memory found, starting fresh''],
             Returned (mm, memory mm))
          else
            ([LogError ''[MemoryManager] Error loading memory:''],
             Returned (mm, memory mm)))"

text \<open>
  The outcomes of the two file-system calls of \<open>save\<close>: \<open>Deno.mkdir\<close> and
  \<open>Deno.writeTextFile\<close>, each \<open>None\<close> on success.
\<close>

record fsOutcome =
  mkdirResult :: "error option"
  writeResult :: "error option"

definition ensureDataDirectory :: "error option \<Rightarrow> error + unit" where
  "ensureDataDirectory mkdirRes =
     (case mkdirRes of
        None \<Rightarrow> Inr ()
      | Some e \<Rightarrow> if e \<noteq> AlreadyExists then Inl e else Inr ())"

definition save :: "memoryManager \<Rightarrow> fsOutcome \<Rightarrow> logEntry list \<times> memoryManager completion" where
  "save mm fs =
     (case ensureDataDirectory (mkdirResult fs) of
        Inl e \<Rightarrow> ([LogError ''[MemoryManager] Error saving memory:''], Threw e mm)
      | Inr u \<Rightarrow>
          (case writeResult fs of
             Some e \<Rightarrow> ([LogError ''[MemoryManager] Error saving memory:''], Threw e mm)
           | None \<Rightarrow> ([LogDebug ''[MemoryManager] Memory saved successfully''], Returned mm)))"

text \<open>The exception that a save with these outcomes ends in, if any.\<close>

definition saveFailure :: "fsOutcome \<Rightarrow> error option" where
  "saveFailure fs =
     (case ensureDataDirectory (mkdirResult fs) of
        Inl e \<Rightarrow> Some e
      | Inr u \<Rightarrow> writeResult fs)"

definition updateOpponentProfiles :: "memoryManager \<Rightarrow> profiles \<Rightarrow> memoryManager" where
  "updateOpponentProfiles mm ps = mm\<lparr>memory := (memory mm)\<lparr>opponentProfiles := ps\<rparr>\<rparr>"

definition updateExperiences ::
  "memoryManager \<Rightarrow> gameExperience list \<Rightarrow> sessionResult list \<Rightarrow> memoryManager" where
  "updateExperiences mm es ss =
     mm\<lparr>memory := (memory mm)
          \<lparr> recentExperiences := es, recentSessions := ss,
            totalHandsPlayed := totalHandsPlayed (memory mm) + int (length es) \<rparr>\<rparr>"

definition updatePerformance :: "memoryManager \<Rightarrow> sessionResult \<Rightarrow> memoryManager" where
  "updatePerformance mm sessionRes =
     (let perf = performance (memory mm);
          wr0 = winRateBySession perf @ [if finalRank sessionRes = 1 then 1 else 0];
          ar0 = avgRankBySession perf @ [finalRank sessionRes];
          ac0 = avgChipsBySession perf @ [finalChips sessionRes];
          over = (length wr0 > 100);
          wr = (if over then tl wr0 else wr0);
          ar = (if over then tl ar0 else ar0);
          ac = (if over then tl ac0 else ac0);
          wins = (if finalRank sessionRes = 1 then totalWins perf + 1 else totalWins perf);
          top3 = (if finalRank sessionRes \<le> 3 then totalTop3 perf + 1 else totalTop3 perf);
          perf1 = perf\<lparr> winRateBySession := wr, avgRankBySession := ar, avgChipsBySession := ac,
                        totalWins := wins, totalTop3 := top3,
                        totalProfit := totalProfit perf + netProfit sessionRes \<rparr>;
          perf2 =
            (if totalSessionsPlayed (memory mm) \<le> 20 then
               perf1\<lparr>winRateBeforeLearning :=
                        real (length (filter (\<lambda>w. w = 1) wr)) / real (length wr)\<rparr>
             else
               let recent20 = drop (length wr - 20) wr
               in perf1\<lparr>winRateAfterLearning :=
                          real (length (filter (\<lambda>w. w = 1) recent20)) / real (length recent20)\<rparr>)
      in mm\<lparr>memory := (memory mm)
            \<lparr> performance := perf2,
              totalSessionsPlayed := totalSessionsPlayed (memory mm) + 1 \<rparr>\<rparr>)"

section \<open>LearningCoordinator\<close>

text \<open>
  The coordinator, its profiler, its tracker and its memory manager as one state.  The
  profile map that the memory holds after \<open>updateOpponentProfiles\<close> is the profiler's
  own \<open>Map\<close> object; the model copies its value.
\<close>

record learningCoordinator =
  profiler :: profiles
  tracker :: experienceTracker
  memoryMgr :: memoryManager
  lcEnabled :: bool
  currentSessionId :: "string option"
  currentSessionHandCount :: int

definition newLearningCoordinator :: "config \<Rightarrow> string \<Rightarrow> int \<Rightarrow> learningCoordinator" where
  "newLearningCoordinator cfg path now =
     \<lparr> profiler = Map.empty,
       tracker = newExperienceTracker None None,
       memoryMgr = newMemoryManager cfg path now,
       lcEnabled = botEnabled cfg,
       currentSessionId = None,
       currentSessionHandCount = 0 \<rparr>"

text \<open>What a completed call threw, if anything, and the state it left.\<close>

fun thrownError :: "'a completion \<Rightarrow> error option" where
  "thrownError (Returned s) = None"
| "thrownError (Threw e s) = Some e"

fun finalState :: "'a completion \<Rightarrow> 'a" where
  "finalState (Returned s) = s"
| "finalState (Threw e s) = s"

definition coordinatorSave ::
  "learningCoordinator \<Rightarrow> fsOutcome \<Rightarrow> logEntry list \<times> learningCoordinator completion" where
  "coordinatorSave lc fs =
     (case save (memoryMgr lc) fs of
        (lg, Threw e mm) \<Rightarrow> (lg, Threw e (lc\<lparr>memoryMgr := mm\<rparr>))
      | (lg, Returned mm) \<Rightarrow> (lg, Returned (lc\<lparr>memoryMgr := mm\<rparr>)))"

text \<open>
  \<open>generateInsights\<close> and \<open>logInsights\<close> read the state and write info lines; the four
  lines that are always written stand for them.
\<close>

definition logInsights :: "logEntry list" where
  "logInsights = [LogInfo ''=== Session Insights ==='', LogInfo ''Best: '',
                  LogInfo ''Worst: '', LogInfo ''Trend: '']"

definition recordSession ::
  "learningCoordinator \<Rightarrow> sessionResult \<Rightarrow> real \<Rightarrow> int \<Rightarrow> fsOutcome
     \<Rightarrow> logEntry list \<times> learningCoordinator completion" where
  "recordSession lc sessionRes bobRank now fs =
     (if \<not> lcEnabled lc then ([], Returned lc)
      else
        let tr = trackerRecordSession (tracker lc) sessionRes;
            ps = foldl (\<lambda>ps opponent. updateProfile ps (walletAddress opponent) opponent bobRank now)
                   (profiler lc) (opponents sessionRes);
            mm1 = updatePerformance (memoryMgr lc) sessionRes;
            mm2 = updateOpponentProfiles mm1 ps;
            mm3 = updateExperiences mm2 (experiences tr) (sessions tr);
            lc1 = lc\<lparr>tracker := tr, profiler := ps, memoryMgr := mm3\<rparr>
        in case coordinatorSave lc1 fs of
             (lg, Threw e lc2) \<Rightarrow> (logInsights @ lg, Threw e lc2)
           | (lg, Returned lc2) \<Rightarrow>
               (logInsights @ lg @ [LogInfo ''[Learning] Session recorded''],
                Returned (lc2\<lparr>currentSessionId := None, currentSessionHandCount := 0\<rparr>)))"

definition getStrategyAdjustment :: "learningCoordinator \<Rightarrow> int \<Rightarrow> string \<Rightarrow> string \<Rightarrow> real" where
  "getStrategyAdjustment lc ptotal dealerUpcardRank act =
     (if \<not> lcEnabled lc then 0
      else getLearnedEVAdjustment (tracker lc) ptotal dealerUpcardRank act)"

text \<open>The profiles of the wallets that the profiler knows, in the order of the wallets.\<close>

definition knownOpponents :: "profiles \<Rightarrow> string list \<Rightarrow> opponentProfile list" where
  "knownOpponents ps wallets = map the (filter (\<lambda>p. p \<noteq> None) (map ps wallets))"

text \<open>
  \<open>adjustDecisionForOpponent\<close>.  A bet size is truthy when it is present and not zero.
\<close>

definition truthyBet :: "real option \<Rightarrow> bool" where
  "truthyBet b = (case b of None \<Rightarrow> False | Some v \<Rightarrow> v \<noteq> 0)"

definition adjustDecisionForOpponent ::
  "learningCoordinator \<Rightarrow> botDecision \<Rightarrow> string list \<Rightarrow> botDecision" where
  "adjustDecisionForOpponent lc decision wallets =
     (if \<not> lcEnabled lc \<or> length wallets = 0 then decision
      else
        let opps = knownOpponents (profiler lc) wallets
        in if length opps = 0 then decision
           else
             let avgSkill = foldl (\<lambda>sum opp. sum + skillScore (stats opp)) 0 opps / real (length opps);
                 avgAggression =
                   foldl (\<lambda>sum opp. sum + aggressionScore (stats opp)) 0 opps / real (length opps)
             in if truthyBet (betSize decision) \<and> avgSkill < 0.4 then
                  decision\<lparr>betSize := Some (min (the (betSize decision) * 1.2) 100)\<rparr>
                else if avgAggression > 0.7 then
                  decision\<lparr>betSize :=
                    Some (if truthyBet (betSize decision) then the (betSize decision) else 25)\<rparr>
                else decision)"



section \<open>The caller of the learning path\<close>

text \<open>
  \<open>GameClient.handleSessionCompletion\<close>: the whole body is one \<open>try\<close> block whose
  \<open>catch\<close> logs.  Its inputs are the outcome of fetching the session results and the
  file-system outcomes of the two saves.
\<close>

definition handleSessionCompletion ::
  "config \<Rightarrow> learningCoordinator \<Rightarrow> error + sessionResult option \<Rightarrow> int \<Rightarrow> fsOutcome \<Rightarrow> fsOutcome
     \<Rightarrow> logEntry list \<times> learningCoordinator completion" where
  "handleSessionCompletion cfg lc fetched now fs1 fs2 =
     (case fetched of
        Inl e \<Rightarrow> ([LogError ''[GameClient] Error handling session completion:''], Returned lc)
      | Inr None \<Rightarrow> ([LogWarn ''[GameClient] Could not fetch session results''], Returned lc)
      | Inr (Some results) \<Rightarrow>
          if \<not> learningEnabled cfg then
            ([LogInfo ''[GameClient] Final Result''], Returned lc)
          else
            (case recordSession lc results (finalRank results) now fs1 of
               (lg1, Threw e lc1) \<Rightarrow>
                 (LogInfo ''[GameClient] Final Result'' # lg1
                    @ [LogError ''[GameClient] Error handling session completion:''],
                  Returned lc1)
             | (lg1, Returned lc1) \<Rightarrow>
                 (case coordinatorSave lc1 fs2 of
                    (lg2, Threw e lc2) \<Rightarrow>
                      (LogInfo ''[GameClient] Final Result'' # lg1 @ lg2
                         @ [LogError ''[GameClient] Error handling session completion:''],
                       Returned lc2)
                  | (lg2, Returned lc2) \<Rightarrow>
                      (LogInfo ''[GameClient] Final Result'' # lg1 @ lg2
                         @ [LogInfo ''[Learning] Total sessions''],
                       Returned lc2))))"

section \<open>Example data\<close>

text \<open>A hand of 16 against a dealer 7 that was hit, with the given chip result.\<close>

definition exampleHand :: "real \<Rightarrow> gameExperience" where
  "exampleHand won =
     \<lparr> expSessionId = ''s1'', handNumber = 1,
       expPlayerHand = [\<lparr>suit = Hearts, rank = ''10''\<rparr>, \<lparr>suit = Clubs, rank = ''6''\<rparr>],
       expPlayerTotal = 16, expDealerUpcard = \<lparr>suit = Spades, rank = ''7''\<rparr>,
       dealerFinalHand = None, dealerTotal = None, expTrueCount = 0, expChipStack = 1000,
       expCurrentRank = 1, expHandsRemaining = 5, actionTaken = Hit, expBetSize = 25,
       handResult = (if won > 0 then Win else if won < 0 then Loss else Push),
       chipsWon = won, timestamp = 0, opponentWallets = [] \<rparr>"

text \<open>An opponent's session: average bet 100, ten actions, all of them doubles.\<close>

definition exampleOpponent :: opponentSessionData where
  "exampleOpponent =
     \<lparr> walletAddress = ''w1'', oppFinalRank = 2, oppFinalChips = 900, oppHandsWon = 4,
       avgBetSize = 100, totalHits = 0, totalStands = 0, totalDoubles = 10, totalSplits = 0 \<rparr>"

text \<open>A session that Bob won against no recorded opponent.\<close>

definition exampleSession :: sessionResult where
  "exampleSession =
     \<lparr> sessionId = ''s1'', finalRank = 1, totalPlayers = 2, finalChips = 1200,
       handsPlayed = 10, handsWon = 6, totalWagered = 250, netProfit = 200, payout = 0.09,
       opponents = [], completedAt = 0 \<rparr>"

text \<open>A profile with given skill, aggression and split-tens frequency, and given tags.\<close>

definition exampleProfile :: "real \<Rightarrow> real \<Rightarrow> real \<Rightarrow> string list \<Rightarrow> opponentProfile" where
  "exampleProfile skill aggression splitTens tags =
     (createNewProfile ''w1'' 0)
       \<lparr> sessionsPlayed := 3,
         stats := (stats (createNewProfile ''w1'' 0))
                    \<lparr>skillScore := skill, aggressionScore := aggression\<rparr>,
         patterns := (patterns (createNewProfile ''w1'' 0))\<lparr>split10s := splitTens\<rparr>,
         weaknesses := tags \<rparr>"



section \<open>Properties of the card counter\<close>

lemma updateCount_enabled [simp]: "enabled (updateCount c cd) = enabled c"
  by (simp add: updateCount_def Let_def)

lemma updateCount_runningCount:
  "enabled c \<Longrightarrow> runningCount (updateCount c cd) = runningCount c + hiLoWeight cd"
  by (simp add: updateCount_def hiLoWeight_def Let_def)

lemma updateCount_cardsDealt:
  "enabled c \<Longrightarrow> cardsDealt (updateCount c cd) = cardsDealt c + 1"
  by (simp add: updateCount_def Let_def)

lemma updateCount_disabled: "\<not> enabled c \<Longrightarrow> updateCount c cd = c"
  by (simp add: updateCount_def)

lemma observeAll_enabled [simp]: "enabled (observeAll c cds) = enabled c"
  unfolding observeAll_def by (induction cds arbitrary: c) simp_all

lemma observeAll_runningCount:
  "enabled c \<Longrightarrow>
   runningCount (observeAll c cds) = runningCount c + sum_list (map hiLoWeight cds)"
  unfolding observeAll_def
  by (induction cds arbitrary: c) (simp_all add: updateCount_runningCount)

lemma observeAll_cardsDealt:
  "enabled c \<Longrightarrow> cardsDealt (observeAll c cds) = cardsDealt c + int (length cds)"
  unfolding observeAll_def
  by (induction cds arbitrary: c) (simp_all add: updateCount_cardsDealt)

lemma sum_list_hiLo_mset:
  assumes "mset cds = mset cds'"
  shows "sum_list (map hiLoWeight cds) = sum_list (map hiLoWeight cds')"
proof -
  have "mset (map hiLoWeight cds) = mset (map hiLoWeight cds')"
    using assms by (simp only: mset_map)
  then have "sum_mset (mset (map hiLoWeight cds)) = sum_mset (mset (map hiLoWeight cds'))"
    by (rule arg_cong)
  then show ?thesis
    by (simp only: sum_mset_sum_list)
qed

lemma reset_fields [simp]:
  "runningCount (reset c) = 0" "cardsDealt (reset c) = 0" "enabled (reset c) = enabled c"
  by (simp_all add: reset_def)

text \<open>
  Claim C2.  With counting enabled and starting from a reset counter, the running count
  after observing a sequence of cards is the sum of the Hi-Lo weights of the cards; two
  sequences with the same multiset of cards give the same running count; with counting
  disabled, observing a card changes nothing.
\<close>

theorem runningCount_is_hiLo_sum:
  "(enabled c \<longrightarrow>
      runningCount (observeAll (reset c) cds) = sum_list (map hiLoWeight cds))
   \<and> (enabled c \<longrightarrow> mset cds = mset cds' \<longrightarrow>
      runningCount (observeAll (reset c) cds) = runningCount (observeAll (reset c) cds'))
   \<and> (\<not> enabled c \<longrightarrow> updateCount c cd = c)"
proof (intro conjI impI)
  assume "enabled c"
  then show "runningCount (observeAll (reset c) cds) = sum_list (map hiLoWeight cds)"
    by (simp add: observeAll_runningCount)
next
  assume en: "enabled c" and eq: "mset cds = mset cds'"
  have "runningCount (observeAll (reset c) cds) = sum_list (map hiLoWeight cds)"
    using en by (simp add: observeAll_runningCount)
  also have "\<dots> = sum_list (map hiLoWeight cds')"
    using eq by (rule sum_list_hiLo_mset)
  also have "\<dots> = runningCount (observeAll (reset c) cds')"
    using en by (simp add: observeAll_runningCount)
  finally show "runningCount (observeAll (reset c) cds) = runningCount (observeAll (reset c) cds')" .
next
  assume "\<not> enabled c"
  then show "updateCount c cd = c"
    by (rule updateCount_disabled)
qed

theorem runningCount_is_hiLo_sum_witness:
  "enabled (newCardCounter True)
   \<and> mset [\<lparr>suit = Hearts, rank = ''2''\<rparr>, \<lparr>suit = Spades, rank = ''K''\<rparr>,
            \<lparr>suit = Clubs, rank = ''6''\<rparr>, \<lparr>suit = Clubs, rank = ''8''\<rparr>]
     = mset [\<lparr>suit = Clubs, rank = ''8''\<rparr>, \<lparr>suit = Clubs, rank = ''6''\<rparr>,
            \<lparr>suit = Spades, rank = ''K''\<rparr>, \<lparr>suit = Hearts, rank = ''2''\<rparr>]
   \<and> runningCount (observeAll (reset (newCardCounter True))
        [\<lparr>suit = Hearts, rank = ''2''\<rparr>, \<lparr>suit = Spades, rank = ''K''\<rparr>,
         \<lparr>suit = Clubs, rank = ''6''\<rparr>, \<lparr>suit = Clubs, rank = ''8''\<rparr>]) = 1
   \<and> runningCount (observeAll (reset (newCardCounter True))
        [\<lparr>suit = Clubs, rank = ''8''\<rparr>, \<lparr>suit = Clubs, rank = ''6''\<rparr>,
         \<lparr>suit = Spades, rank = ''K''\<rparr>, \<lparr>suit = Hearts, rank = ''2''\<rparr>]) = 1
   \<and> \<not> enabled (newCardCounter False)
   \<and> updateCount (newCardCounter False) \<lparr>suit = Hearts, rank = ''2''\<rparr> = newCardCounter False"
proof -
  let ?a = "\<lparr>suit = Hearts, rank = ''2''\<rparr>" and ?b = "\<lparr>suit = Spades, rank = ''K''\<rparr>"
  let ?c = "\<lparr>suit = Clubs, rank = ''6''\<rparr>" and ?d = "\<lparr>suit = Clubs, rank = ''8''\<rparr>"
  have en: "enabled (newCardCounter True)" and dis: "\<not> enabled (newCardCounter False)"
    by (simp_all add: newCardCounter_def)
  have perm: "mset [?a, ?b, ?c, ?d] = mset [?d, ?c, ?b, ?a]"
    by (simp add: add_mset_commute)
  note thm1 = runningCount_is_hiLo_sum [of "newCardCounter True" "[?a, ?b, ?c, ?d]" "[?d, ?c, ?b, ?a]"]
  note thm2 = runningCount_is_hiLo_sum [of "newCardCounter False" "[]" "[]" ?a]
  have s1: "runningCount (observeAll (reset (newCardCounter True)) [?a, ?b, ?c, ?d]) = 1"
    using thm1 en by (simp add: hiLoWeight_def)
  have s2: "runningCount (observeAll (reset (newCardCounter True)) [?d, ?c, ?b, ?a]) = 1"
    using thm1 en perm s1 by simp
  have s3: "updateCount (newCardCounter False) ?a = newCardCounter False"
    using thm2 dis by blast
  show ?thesis using en dis perm s1 s2 s3 by blast
qed

lemma runCalls_snoc: "runCalls c (calls @ [x]) = applyCall (runCalls c calls) x"
  by (simp add: runCalls_def)

lemma runCalls_enabled [simp]: "enabled (runCalls c calls) = enabled c"
proof (induction calls rule: rev_induct)
  case Nil
  show ?case by (simp add: runCalls_def)
next
  case (snoc x xs)
  then show ?case by (cases x) (simp_all add: runCalls_snoc)
qed

lemma observedSinceReset_snoc:
  "observedSinceReset (calls @ [Observe cd]) = Suc (observedSinceReset calls)"
  "observedSinceReset (calls @ [Reset]) = 0"
  by (simp_all add: observedSinceReset_def)

lemma observedSinceReset_replicate:
  "observedSinceReset (replicate n (Observe cd)) = n"
  by (simp add: observedSinceReset_def)

lemma cardsDealt_runCalls:
  "cardsDealt (runCalls (reset c) calls) =
     (if enabled c then int (observedSinceReset calls) else 0)"
proof (induction calls rule: rev_induct)
  case Nil
  show ?case by (simp add: runCalls_def observedSinceReset_def)
next
  case (snoc x xs)
  show ?case
  proof (cases x)
    case (Observe cd)
    show ?thesis
    proof (cases "enabled c")
      case True
      then show ?thesis
        using snoc Observe
        by (simp add: runCalls_snoc observedSinceReset_snoc updateCount_cardsDealt)
    next
      case False
      then show ?thesis
        using snoc Observe by (simp add: runCalls_snoc updateCount_disabled)
    qed
  next
    case Reset
    then show ?thesis by (simp add: runCalls_snoc observedSinceReset_snoc)
  qed
qed

text \<open>
  Claim C8, as the code has it.  In every state reached from the reset state by
  \<open>observe\<close> and \<open>reset\<close> calls, \<open>cardsDealt\<close> is not negative and equals the number of
  cards observed since the last reset (zero when counting is disabled).  Nothing caps
  it: it stays within \<open>totalCards\<close> exactly as long as at most 416 cards have been
  observed since the last reset.
\<close>

theorem cardsDealt_counts_observations:
  "0 \<le> cardsDealt (runCalls (reset c) calls)
   \<and> cardsDealt (runCalls (reset c) calls) =
       (if enabled c then int (observedSinceReset calls) else 0)
   \<and> (cardsDealt (runCalls (reset c) calls) \<le> totalCards
        \<longleftrightarrow> \<not> enabled c \<or> observedSinceReset calls \<le> 416)"
  by (simp add: cardsDealt_runCalls totalCards_def)

theorem cardsDealt_counts_observations_witness:
  "cardsDealt (runCalls (reset (newCardCounter True))
      [Observe \<lparr>suit = Hearts, rank = ''7''\<rparr>, Reset,
       Observe \<lparr>suit = Hearts, rank = ''K''\<rparr>, Observe \<lparr>suit = Clubs, rank = ''3''\<rparr>]) = 2
   \<and> enabled (newCardCounter True)
   \<and> observedSinceReset
      [Observe \<lparr>suit = Hearts, rank = ''7''\<rparr>, Reset,
       Observe \<lparr>suit = Hearts, rank = ''K''\<rparr>, Observe \<lparr>suit = Clubs, rank = ''3''\<rparr>] \<le> 416
   \<and> cardsDealt (runCalls (reset (newCardCounter True))
      [Observe \<lparr>suit = Hearts, rank = ''7''\<rparr>, Reset,
       Observe \<lparr>suit = Hearts, rank = ''K''\<rparr>, Observe \<lparr>suit = Clubs, rank = ''3''\<rparr>]) \<le> totalCards"
proof -
  let ?calls = "[Observe \<lparr>suit = Hearts, rank = ''7''\<rparr>, Reset,
       Observe \<lparr>suit = Hearts, rank = ''K''\<rparr>, Observe \<lparr>suit = Clubs, rank = ''3''\<rparr>]"
  have o: "observedSinceReset ?calls = 2"
    by (simp add: observedSinceReset_def)
  have en: "enabled (newCardCounter True)"
    by (simp add: newCardCounter_def)
  show ?thesis
    using cardsDealt_counts_observations [of "newCardCounter True" ?calls] o en
    by simp
qed

text \<open>
  The claim as stated fails: 417 cards observed from the reset state leave
  \<open>cardsDealt\<close> at 417, above the shoe size of 416.
\<close>

theorem cardsDealt_bound_counterexample:
  "\<not> cardsDealt (runCalls (reset (newCardCounter True))
        (replicate 417 (Observe \<lparr>suit = Hearts, rank = ''7''\<rparr>))) \<le> totalCards"
proof -
  have "cardsDealt (runCalls (reset (newCardCounter True))
        (replicate 417 (Observe \<lparr>suit = Hearts, rank = ''7''\<rparr>))) = 417"
    by (simp only: cardsDealt_runCalls observedSinceReset_replicate)
       (simp add: newCardCounter_def)
  then show ?thesis by (simp add: totalCards_def)
qed

lemma mathFloor_mono: "x \<le> y \<Longrightarrow> mathFloor x \<le> mathFloor y"
  by (simp add: mathFloor_def floor_mono)

lemma mathFloor_le: "mathFloor x \<le> x"
  by (simp add: mathFloor_def)

lemma scale_down: "0 \<le> (m::real) \<Longrightarrow> m * 0.8 \<le> m"
  by simp

lemma scale_order: "0 \<le> (m::real) \<Longrightarrow> a \<le> b \<Longrightarrow> m * a \<le> m * b"
  by (rule mult_left_mono)

lemma observeAll_replicate_low:
  assumes "hiLoWeight cd = 1"
  shows "observeAll (newCardCounter True) (replicate n cd)
           = \<lparr>runningCount = int n, cardsDealt = int n, enabled = True\<rparr>"
proof (rule cardCounter.equality)
  have en: "enabled (newCardCounter True)" by (simp add: newCardCounter_def)
  show "runningCount (observeAll (newCardCounter True) (replicate n cd))
          = runningCount \<lparr>runningCount = int n, cardsDealt = int n, enabled = True\<rparr>"
    using observeAll_runningCount [OF en, of "replicate n cd"] assms
    by (simp add: newCardCounter_def sum_list_replicate)
  show "cardsDealt (observeAll (newCardCounter True) (replicate n cd))
          = cardsDealt \<lparr>runningCount = int n, cardsDealt = int n, enabled = True\<rparr>"
    using observeAll_cardsDealt [OF en, of "replicate n cd"]
    by (simp add: newCardCounter_def)
  show "enabled (observeAll (newCardCounter True) (replicate n cd))
          = enabled \<lparr>runningCount = int n, cardsDealt = int n, enabled = True\<rparr>"
    by (simp add: newCardCounter_def)
qed simp

lemma ramp_mono:
  fixes t1 t2 th mn M a b c ch :: real
  assumes "t1 \<le> t2" "mn \<le> a" "a \<le> b" "b \<le> c" "c \<le> M" "M \<le> ch"
  shows "(if t1 \<ge> 5 then M
          else if t1 \<ge> 4 then min c ch
          else if t1 \<ge> 3 then min b ch
          else if t1 \<ge> th then min a ch
          else if t1 \<le> - 2 then mn
          else mn)
       \<le> (if t2 \<ge> 5 then M
          else if t2 \<ge> 4 then min c ch
          else if t2 \<ge> 3 then min b ch
          else if t2 \<ge> th then min a ch
          else if t2 \<le> - 2 then mn
          else mn)"
  using assms by (auto simp add: min_def)

text \<open>
  The betting ramp is monotone in the true count whenever its lowest tier is not below
  the minimum bet: for a chip stack and a configuration with
  \<open>minBet \<le> floor (0.4 * min maxBet chips)\<close>.
\<close>

lemma getBet_mono_above_minBet:
  assumes en: "enabled c1" "enabled c2"
    and le: "getTrueCount c1 \<le> getTrueCount c2"
    and ramp: "minBet cfg \<le> mathFloor (min (maxBet cfg) chips * 0.4)"
    and nonneg: "0 \<le> min (maxBet cfg) chips"
  shows "getBet cfg c1 chips \<le> getBet cfg c2 chips"
proof -
  let ?M = "min (maxBet cfg) chips"
  have m1: "mathFloor (?M * 0.4) \<le> mathFloor (?M * 0.6)"
    using nonneg by (intro mathFloor_mono scale_order) simp_all
  have m2: "mathFloor (?M * 0.6) \<le> mathFloor (?M * 0.8)"
    using nonneg by (intro mathFloor_mono scale_order) simp_all
  have m3: "mathFloor (?M * 0.8) \<le> ?M"
  proof -
    have "mathFloor (?M * 0.8) \<le> ?M * 0.8" by (rule mathFloor_le)
    also have "\<dots> \<le> ?M" using nonneg by (rule scale_down)
    finally show ?thesis .
  qed
  have mc: "?M \<le> chips" by simp
  show ?thesis
    using en ramp_mono [OF le ramp m1 m2 m3 mc, of "countThresholdBetIncrease cfg"]
    unfolding getBet_def Let_def
    by simp
qed

text \<open>
  Claim C3 at a failing input.  Default configuration, 50 chips: after eight low cards
  the true count is 1.0 and the bet is the minimum, 25; after sixteen low cards the
  true count is 2.1 and the bet is 20.  The higher count gets the lower bet.
\<close>

theorem getBet_decreases_at_small_stack:
  "getTrueCount (observeAll (newCardCounter True) (replicate 8 \<lparr>suit = Hearts, rank = ''5''\<rparr>)) = 1
   \<and> getTrueCount (observeAll (newCardCounter True) (replicate 16 \<lparr>suit = Hearts, rank = ''5''\<rparr>)) = 2.1
   \<and> getBet defaultConfig (observeAll (newCardCounter True) (replicate 8 \<lparr>suit = Hearts, rank = ''5''\<rparr>)) 50 = 25
   \<and> getBet defaultConfig (observeAll (newCardCounter True) (replicate 16 \<lparr>suit = Hearts, rank = ''5''\<rparr>)) 50 = 20"
proof -
  let ?five = "\<lparr>suit = Hearts, rank = ''5''\<rparr>"
  have w: "hiLoWeight ?five = 1" by (simp add: hiLoWeight_def)
  have c8: "observeAll (newCardCounter True) (replicate 8 ?five)
      = \<lparr>runningCount = 8, cardsDealt = 8, enabled = True\<rparr>"
    using observeAll_replicate_low [OF w, of 8] by simp
  have c16: "observeAll (newCardCounter True) (replicate 16 ?five)
      = \<lparr>runningCount = 16, cardsDealt = 16, enabled = True\<rparr>"
    using observeAll_replicate_low [OF w, of 16] by simp
  have t8: "getTrueCount \<lparr>runningCount = 8, cardsDealt = 8, enabled = True\<rparr> = 1"
    by (simp add: getTrueCount_def totalCards_def mathRound_def Let_def)
  have t16: "getTrueCount \<lparr>runningCount = 16, cardsDealt = 16, enabled = True\<rparr> = 2.1"
    by (simp add: getTrueCount_def totalCards_def mathRound_def Let_def)
  have b8: "getBet defaultConfig \<lparr>runningCount = 8, cardsDealt = 8, enabled = True\<rparr> 50 = 25"
    unfolding getBet_def Let_def t8 by (simp add: defaultConfig_def)
  have b16: "getBet defaultConfig \<lparr>runningCount = 16, cardsDealt = 16, enabled = True\<rparr> 50 = 20"
    unfolding getBet_def Let_def t16 by (simp add: defaultConfig_def mathFloor_def)
  show ?thesis
    unfolding c8 c16 using t8 t16 b8 b16 by simp
qed

section \<open>Properties of the strategy engine\<close>

lemma calculateStandEV_bust: "ptotal > 21 \<Longrightarrow> calculateStandEV ptotal upcard = - 1"
  by (simp add: calculateStandEV_def)

lemma calculateHitEV_beyond:
  "depth > 5 \<Longrightarrow> calculateHitEV ptotal upcard soft depth = calculateStandEV ptotal upcard"
  by (simp add: calculateHitEV.simps [of ptotal upcard soft depth] calculateStandEV_bust)

lemma calculateHitEV_calls_beyond:
  "depth > 5 \<Longrightarrow> calculateHitEV_calls ptotal soft depth = 0"
  by (simp add: calculateHitEV_calls.simps [of ptotal soft depth])

lemma foldl_step_bound:
  fixes f :: "nat \<Rightarrow> 'a \<Rightarrow> nat"
  assumes "\<And>n x. f n x \<le> n + k"
  shows "foldl f a xs \<le> a + length xs * k"
proof (induction xs arbitrary: a)
  case Nil
  show ?case by simp
next
  case (Cons x xs)
  have "foldl f (f a x) xs \<le> f a x + length xs * k" by (rule Cons.IH)
  also have "\<dots> \<le> (a + k) + length xs * k" using assms [of a x] by simp
  finally show ?case by simp
qed

lemma length_cardProbs: "length cardProbs = 10"
  by (simp add: cardProbs_def)

lemma calculateHitEV_calls_depth5:
  "calculateHitEV_calls ptotal soft 5 \<le> 10"
proof (cases "ptotal > 21")
  case True
  then show ?thesis by (simp add: calculateHitEV_calls.simps [of ptotal soft 5])
next
  case False
  let ?f = "\<lambda>n (cardValue, prob :: real).
                 case drawCard ptotal soft cardValue of
                   (newTotal, newIsSoft) \<Rightarrow>
                     if newTotal > 21 then n
                     else if newTotal = 21 then n
                     else n + (1 + calculateHitEV_calls newTotal newIsSoft (5 + 1))"
  have step: "\<And>n x. ?f n x \<le> n + 1"
    by (simp add: calculateHitEV_calls_beyond split: prod.splits)
  have "foldl ?f 0 cardProbs \<le> 0 + length cardProbs * 1"
    using step by (rule foldl_step_bound)
  then show ?thesis
    using False by (simp add: calculateHitEV_calls.simps [of ptotal soft 5] length_cardProbs)
qed

lemma calculateHitEV_depth5:
  "calculateHitEV ptotal upcard soft 5 =
     (if ptotal > 21 then - 1
      else foldl (\<lambda>ev (cardValue, prob).
                    ev + prob * calculateStandEV (fst (drawCard ptotal soft cardValue)) upcard)
             0 cardProbs)"
proof (cases "ptotal > 21")
  case True
  then show ?thesis by (simp add: calculateHitEV.simps [of ptotal upcard soft 5])
next
  case False
  have "foldl (\<lambda>ev (cardValue, prob).
                 case drawCard ptotal soft cardValue of
                   (newTotal, newIsSoft) \<Rightarrow>
                     if newTotal > 21 then ev + prob * (- 1)
                     else if newTotal = 21 then ev + prob * calculateStandEV 21 upcard
                     else
                       let standEV = calculateStandEV newTotal upcard;
                           hitAgainEV = calculateHitEV newTotal upcard newIsSoft (5 + 1)
                       in ev + prob * max standEV hitAgainEV)
          0 cardProbs
     = foldl (\<lambda>ev (cardValue, prob).
                    ev + prob * calculateStandEV (fst (drawCard ptotal soft cardValue)) upcard)
             0 cardProbs"
    by (rule foldl_cong)
       (auto simp add: calculateHitEV_beyond calculateStandEV_bust Let_def split: prod.splits)
  then show ?thesis
    using False by (simp add: calculateHitEV.simps [of ptotal upcard soft 5])
qed

text \<open>
  The whole recursion is bounded: a call at depth \<open>d\<close> sets off at most
  \<open>callBound (6 - d)\<close> further calls, which is 1111110 at depth 0.
\<close>

lemma calculateHitEV_calls_bound_aux:
  "6 - depth \<le> k \<Longrightarrow> calculateHitEV_calls ptotal soft depth \<le> callBound k"
proof (induction k arbitrary: ptotal soft depth)
  case 0
  then have "depth > 5" by simp
  then show ?case by (simp add: calculateHitEV_calls_beyond)
next
  case (Suc k)
  show ?case
  proof (cases "ptotal > 21 \<or> depth > 5")
    case True
    then show ?thesis by (auto simp add: calculateHitEV_calls.simps [of ptotal soft depth])
  next
    case False
    let ?f = "\<lambda>n (cardValue, prob :: real).
                 case drawCard ptotal soft cardValue of
                   (newTotal, newIsSoft) \<Rightarrow>
                     if newTotal > 21 then n
                     else if newTotal = 21 then n
                     else n + (1 + calculateHitEV_calls newTotal newIsSoft (depth + 1))"
    have deeper: "calculateHitEV_calls t s (depth + 1) \<le> callBound k" for t s
      using Suc.prems by (intro Suc.IH) simp
    have step: "\<And>n x. ?f n x \<le> n + (1 + callBound k)"
      using deeper by (simp split: prod.splits)
    have "foldl ?f 0 cardProbs \<le> 0 + length cardProbs * (1 + callBound k)"
      using step by (rule foldl_step_bound)
    then show ?thesis
      using False
      by (simp add: calculateHitEV_calls.simps [of ptotal soft depth] length_cardProbs)
  qed
qed

lemma calculateHitEV_calls_bound:
  "calculateHitEV_calls ptotal soft depth \<le> callBound (6 - depth)"
  by (rule calculateHitEV_calls_bound_aux) simp

lemma callBound_6: "callBound 6 = 1111110"
proof -
  have six: "(6::nat) = Suc (Suc (Suc (Suc (Suc (Suc 0)))))" by simp
  have "callBound (Suc (Suc (Suc (Suc (Suc (Suc 0)))))) = 1111110" by simp
  then show ?thesis by (simp only: six)
qed

lemma calculateHitEV_calls_total: "calculateHitEV_calls ptotal soft 0 \<le> 1111110"
  using calculateHitEV_calls_bound [of ptotal soft 0] by (simp add: callBound_6)

text \<open>
  Claim C1.  For every player total and every dealer upcard, a call of
  \<open>calculateHitEV\<close> at depth 5 performs one level of work over the next-card
  distribution and nothing deeper: it makes at most ten further calls, one per card
  value, and each of them, being at a depth above 5, makes no further call and returns
  the stand EV.  So the recursion never expands beyond depth 5, and the value at depth 5
  is the sum over the card values of the probability times the stand EV of the new
  total.
\<close>

theorem calculateHitEV_expands_through_depth5:
  "(5 < depth \<longrightarrow>
      calculateHitEV_calls ptotal soft depth = 0
      \<and> calculateHitEV ptotal upcard soft depth = calculateStandEV ptotal upcard)
   \<and> calculateHitEV_calls ptotal soft 5 \<le> 10
   \<and> calculateHitEV ptotal upcard soft 5 =
       (if ptotal > 21 then - 1
        else foldl (\<lambda>ev (cardValue, prob).
                      ev + prob * calculateStandEV (fst (drawCard ptotal soft cardValue)) upcard)
               0 cardProbs)"
  using calculateHitEV_calls_beyond [of depth ptotal soft]
    calculateHitEV_beyond [of depth ptotal upcard soft]
    calculateHitEV_calls_depth5 [of ptotal soft]
    calculateHitEV_depth5 [of ptotal upcard soft]
  by blast

lemma standEV_10_vs_10: "calculateStandEV 10 (Some 10) = - (2871 / 5000)"
  by (simp add: calculateStandEV_def getDealerFinalDistribution_def mkDist_def distAt_def)

lemma hitEV_10_vs_10_depth5: "calculateHitEV 10 (Some 10) False 5 = - (16657 / 130000)"
  by (simp add: calculateHitEV_depth5 cardProbs_def drawCard_def calculateStandEV_def
       getDealerFinalDistribution_def mkDist_def distAt_def)

text \<open>At a hard 10 the call at depth 5 sets off nine calls: every card but the ace.\<close>

lemma calls_10_depth5: "calculateHitEV_calls 10 False 5 = 9"
  by (simp add: calculateHitEV_calls.simps [of 10 False 5] cardProbs_def drawCard_def
        calculateHitEV_calls_beyond)

theorem calculateHitEV_expands_through_depth5_witness:
  "(5::nat) < 6
   \<and> calculateHitEV_calls 10 False 6 = 0
   \<and> calculateHitEV 10 (Some 10) False 6 = - (2871 / 5000)
   \<and> calculateHitEV_calls 10 False 5 \<le> 10
   \<and> \<not> (10::int) > 21
   \<and> calculateHitEV 10 (Some 10) False 5 = - (16657 / 130000)"
  using calculateHitEV_expands_through_depth5 [of 6 10 False "Some 10"]
    standEV_10_vs_10 hitEV_10_vs_10_depth5
  by simp

subsection \<open>Splitting a pair without a rank value\<close>

lemma calculateHitEVNaN_aux:
  "6 - depth \<le> k \<Longrightarrow> calculateHitEVNaN upcard depth = calculateStandEVNaN upcard"
proof (induction k arbitrary: depth)
  case 0
  then show ?case by (simp add: calculateHitEVNaN.simps [of upcard depth])
next
  case (Suc k)
  show ?case
  proof (cases "depth > 5")
    case True
    then show ?thesis by (simp add: calculateHitEVNaN.simps [of upcard depth])
  next
    case False
    have deeper: "calculateHitEVNaN upcard (Suc depth) = calculateStandEVNaN upcard"
      using Suc.prems by (intro Suc.IH) simp
    show ?thesis
      using False
      by (simp add: calculateHitEVNaN.simps [of upcard depth] deeper cardProbs_def Let_def)
  qed
qed

text \<open>
  On a \<open>NaN\<close> total hitting is worth what standing is, since the card probabilities
  add up to one; against a dealer 10 the split EV of such a pair is -1.1484.
\<close>

lemma calculateHitEVNaN_eq: "calculateHitEVNaN upcard depth = calculateStandEVNaN upcard"
  by (rule calculateHitEVNaN_aux [of depth "6 - depth"]) simp

lemma calculateSplitEV_no_value:
  "calculateSplitEV ''X'' (Some 10) = - (2871 / 2500)"
  by (simp add: calculateSplitEV_def getRankValue_def parseInt_def isWhiteSpace_def isDigitOf_def
        digitValue_def calculateHitEVNaN_eq calculateStandEVNaN_def
        getDealerFinalDistribution_def mkDist_def distAt_def Let_def)

subsection \<open>The chosen action is an eligible one\<close>

lemma isFinite_finiteOrNegInf: "isFinite v \<Longrightarrow> finiteOrNegInf v"
  by (cases v) (simp_all add: isFinite_def finiteOrNegInf_def)

lemma set_insertAction [simp]: "set (insertAction a bs) = insert a (set bs)"
  by (induction bs) auto

lemma set_sortActions [simp]: "set (sortActions xs) = set xs"
  by (induction xs) auto

lemma insertAction_not_Nil [simp]: "insertAction a bs \<noteq> []"
  by (cases bs) auto

lemma sortActions_Nil_iff [simp]: "sortActions xs = [] \<longleftrightarrow> xs = []"
  by (cases xs) auto

lemma hd_insertAction:
  "hd (insertAction a bs) = (if bs = [] then a else if compareEV a (hd bs) \<le> 0 then a else hd bs)"
  by (cases bs) auto

lemma compareEV_NegInf_Finite:
  "snd a = NegInfinity \<Longrightarrow> isFinite (snd b) \<Longrightarrow> compareEV a b = 1"
  by (cases "snd b") (simp_all add: compareEV_def jsSub_def isFinite_def)

lemma compareEV_Finite_pos:
  "isFinite (snd a) \<Longrightarrow> finiteOrNegInf (snd b) \<Longrightarrow> compareEV a b > 0 \<Longrightarrow> isFinite (snd b)"
  by (cases "snd a"; cases "snd b")
     (simp_all add: compareEV_def jsSub_def isFinite_def finiteOrNegInf_def)

text \<open>
  When every value is finite or \<open>-Infinity\<close> and one of them is finite, the first
  entry of the sorted array has a finite value.
\<close>

lemma hd_sortActions_finite:
  assumes "\<forall>x \<in> set xs. finiteOrNegInf (snd x)" and "\<exists>x \<in> set xs. isFinite (snd x)"
  shows "isFinite (snd (hd (sortActions xs)))"
  using assms
proof (induction xs)
  case Nil
  then show ?case by simp
next
  case (Cons a as)
  show ?case
  proof (cases "as = []")
    case True
    with Cons.prems show ?thesis by simp
  next
    case False
    let ?b = "hd (sortActions as)"
    have bmem: "?b \<in> set as"
      using False by (metis hd_in_set set_sortActions sortActions_Nil_iff)
    have bfn: "finiteOrNegInf (snd ?b)" using bmem Cons.prems(1) by simp
    show ?thesis
    proof (cases "isFinite (snd a)")
      case True
      show ?thesis
      proof (cases "compareEV a ?b \<le> 0")
        case True
        with \<open>isFinite (snd a)\<close> False show ?thesis by (simp add: hd_insertAction)
      next
        case gt: False
        then have "isFinite (snd ?b)"
          using compareEV_Finite_pos [OF True bfn] by simp
        with gt False show ?thesis by (simp add: hd_insertAction)
      qed
    next
      case notfin: False
      then have aneg: "snd a = NegInfinity"
        using Cons.prems(1) by (cases "snd a") (simp_all add: finiteOrNegInf_def isFinite_def)
      have "\<exists>x \<in> set as. isFinite (snd x)"
        using Cons.prems(2) notfin by auto
      then have bfin: "isFinite (snd ?b)"
        using Cons.IH Cons.prems(1) by simp
      have "compareEV a ?b = 1" using aneg bfin by (rule compareEV_NegInf_Finite)
      with bfin False show ?thesis by (simp add: hd_insertAction)
    qed
  qed
qed

lemma applyCountModifier_fst [simp]: "fst (applyCountModifier m a) = fst a"
  by (simp add: applyCountModifier_def)

lemma applyCountModifier_NegInf:
  "snd a = NegInfinity \<Longrightarrow> snd (applyCountModifier m a) = NegInfinity"
  by (simp add: applyCountModifier_def)

lemma applyCountModifier_finiteOrNegInf:
  "finiteOrNegInf (snd a) \<Longrightarrow> finiteOrNegInf (snd (applyCountModifier m a))"
  by (cases "snd a") (simp_all add: applyCountModifier_def finiteOrNegInf_def)

lemma applyCountModifier_isFinite:
  "isFinite (snd a) \<Longrightarrow> isFinite (snd (applyCountModifier m a))"
  by (cases "snd a") (simp_all add: applyCountModifier_def isFinite_def)

text \<open>The four candidate actions of a decision, after both adjustments.\<close>

lemma best_of_four:
  fixes m :: real
  assumes s: "isFinite sv" and h: "isFinite hv"
    and d: "finiteOrNegInf d" and p: "finiteOrNegInf p"
  defines "xs \<equiv> map (applyCountModifier m) [(Stand, sv), (Hit, hv), (Double, d), (Split, p)]"
  shows "(d = NegInfinity \<longrightarrow> fst (sortActions xs ! 0) \<noteq> Double)
       \<and> (p = NegInfinity \<longrightarrow> fst (sortActions xs ! 0) \<noteq> Split)"
proof -
  have fs: "finiteOrNegInf sv"
    using s by (rule isFinite_finiteOrNegInf)
  have fh: "finiteOrNegInf hv"
    using h by (rule isFinite_finiteOrNegInf)
  have all: "\<forall>x \<in> set xs. finiteOrNegInf (snd x)"
    unfolding xs_def
    using applyCountModifier_finiteOrNegInf [of "(Stand, sv)" m]
      applyCountModifier_finiteOrNegInf [of "(Hit, hv)" m]
      applyCountModifier_finiteOrNegInf [of "(Double, d)" m]
      applyCountModifier_finiteOrNegInf [of "(Split, p)" m] fs fh d p
    by simp
  have ex: "\<exists>x \<in> set xs. isFinite (snd x)"
    unfolding xs_def
    using applyCountModifier_isFinite [of "(Stand, sv)" m] s
    by (intro bexI [of _ "applyCountModifier m (Stand, sv)"]) simp_all
  have fin: "isFinite (snd (hd (sortActions xs)))"
    using all ex by (rule hd_sortActions_finite)
  have ne: "sortActions xs \<noteq> []" by (simp add: xs_def)
  then have nth: "sortActions xs ! 0 = hd (sortActions xs)" by (simp add: hd_conv_nth)
  have mem: "hd (sortActions xs) \<in> set xs"
    using ne by (metis hd_in_set set_sortActions)
  then have cases4: "hd (sortActions xs) = applyCountModifier m (Stand, sv)
      \<or> hd (sortActions xs) = applyCountModifier m (Hit, hv)
      \<or> hd (sortActions xs) = applyCountModifier m (Double, d)
      \<or> hd (sortActions xs) = applyCountModifier m (Split, p)"
    unfolding xs_def by simp
  show ?thesis
  proof (intro conjI impI)
    assume dn: "d = NegInfinity"
    show "fst (sortActions xs ! 0) \<noteq> Double"
    proof
      assume "fst (sortActions xs ! 0) = Double"
      then have "fst (hd (sortActions xs)) = Double" using nth by simp
      then have "hd (sortActions xs) = applyCountModifier m (Double, d)"
        using cases4 by (elim disjE) simp_all
      then have "snd (hd (sortActions xs)) = NegInfinity"
        using dn by (simp add: applyCountModifier_NegInf)
      with fin show False by (simp add: isFinite_def)
    qed
  next
    assume pn: "p = NegInfinity"
    show "fst (sortActions xs ! 0) \<noteq> Split"
    proof
      assume "fst (sortActions xs ! 0) = Split"
      then have "fst (hd (sortActions xs)) = Split" using nth by simp
      then have "hd (sortActions xs) = applyCountModifier m (Split, p)"
        using cases4 by (elim disjE) simp_all
      then have "snd (hd (sortActions xs)) = NegInfinity"
        using pn by (simp add: applyCountModifier_NegInf)
      with fin show False by (simp add: isFinite_def)
    qed
  qed
qed

text \<open>
  Claim C10.  The decision of \<open>getDecision\<close> is never \<open>double\<close> when \<open>canDouble\<close> is
  false, and never \<open>split\<close> unless \<open>canSplit\<close> is true and the hand is two cards of
  equal rank: such an action has the value \<open>-Infinity\<close>, and standing always has a
  finite value that sorts before it.
\<close>

theorem getDecision_respects_eligibility:
  "(\<not> canDouble situation \<longrightarrow>
       action (getDecision cfg counter situation learningAdjustment) \<noteq> Double)
   \<and> (\<not> (canSplit situation \<and> length (playerHand situation) = 2
           \<and> rank (playerHand situation ! 0) = rank (playerHand situation ! 1)) \<longrightarrow>
       action (getDecision cfg counter situation learningAdjustment) \<noteq> Split)"
proof -
  let ?up = "getRankValue (rank (dealerUpcard situation))"
  let ?sv = "jsAdd (Finite (calculateStandEV (playerTotal situation) ?up)) (Finite learningAdjustment)"
  let ?hv = "jsAdd (Finite (calculateHitEV (playerTotal situation) ?up (isSoft situation) 0))
               (Finite learningAdjustment)"
  let ?d = "jsAdd (if canDouble situation then
               Finite (calculateDoubleEV (playerTotal situation) ?up (isSoft situation))
             else NegInfinity) (Finite learningAdjustment)"
  let ?p = "jsAdd (if canSplit situation \<and> length (playerHand situation) = 2
                \<and> rank (playerHand situation ! 0) = rank (playerHand situation ! 1)
             then Finite (calculateSplitEV (rank (playerHand situation ! 0)) ?up)
             else NegInfinity) (Finite learningAdjustment)"
  let ?xs = "map (applyCountModifier (getStrategyModifier counter))
               [(Stand, ?sv), (Hit, ?hv), (Double, ?d), (Split, ?p)]"
  have s: "isFinite ?sv" and h: "isFinite ?hv"
    by (simp_all add: isFinite_def)
  have d: "finiteOrNegInf ?d" and p: "finiteOrNegInf ?p"
    by (simp_all add: finiteOrNegInf_def)
  have act: "action (getDecision cfg counter situation learningAdjustment) = fst (sortActions ?xs ! 0)"
    by (simp only: getDecision_def Let_def botDecision.select_convs)
  have dn: "\<not> canDouble situation \<Longrightarrow> ?d = NegInfinity"
    by simp
  have pn: "\<not> (canSplit situation \<and> length (playerHand situation) = 2
           \<and> rank (playerHand situation ! 0) = rank (playerHand situation ! 1)) \<Longrightarrow> ?p = NegInfinity"
    by simp
  note b = best_of_four [OF s h d p, of "getStrategyModifier counter"]
  show ?thesis
    using b dn pn unfolding act by blast
qed

theorem getDecision_respects_eligibility_witness:
  "\<not> canDouble
       \<lparr> playerHand = [\<lparr>suit = Hearts, rank = ''10''\<rparr>, \<lparr>suit = Clubs, rank = ''4''\<rparr>,
                       \<lparr>suit = Clubs, rank = ''2''\<rparr>],
         playerTotal = 16, isSoft = False, dealerUpcard = \<lparr>suit = Spades, rank = ''7''\<rparr>,
         trueCount = 0, chipStack = 1000, currentRank = 1, handsRemaining = 5,
         canDouble = False, canSplit = False \<rparr>
   \<and> \<not> canSplit
       \<lparr> playerHand = [\<lparr>suit = Hearts, rank = ''10''\<rparr>, \<lparr>suit = Clubs, rank = ''4''\<rparr>,
                       \<lparr>suit = Clubs, rank = ''2''\<rparr>],
         playerTotal = 16, isSoft = False, dealerUpcard = \<lparr>suit = Spades, rank = ''7''\<rparr>,
         trueCount = 0, chipStack = 1000, currentRank = 1, handsRemaining = 5,
         canDouble = False, canSplit = False \<rparr>
   \<and> action (getDecision defaultConfig (newCardCounter True)
       \<lparr> playerHand = [\<lparr>suit = Hearts, rank = ''10''\<rparr>, \<lparr>suit = Clubs, rank = ''4''\<rparr>,
                       \<lparr>suit = Clubs, rank = ''2''\<rparr>],
         playerTotal = 16, isSoft = False, dealerUpcard = \<lparr>suit = Spades, rank = ''7''\<rparr>,
         trueCount = 0, chipStack = 1000, currentRank = 1, handsRemaining = 5,
         canDouble = False, canSplit = False \<rparr> 0) \<noteq> Double
   \<and> action (getDecision defaultConfig (newCardCounter True)
       \<lparr> playerHand = [\<lparr>suit = Hearts, rank = ''10''\<rparr>, \<lparr>suit = Clubs, rank = ''4''\<rparr>,
                       \<lparr>suit = Clubs, rank = ''2''\<rparr>],
         playerTotal = 16, isSoft = False, dealerUpcard = \<lparr>suit = Spades, rank = ''7''\<rparr>,
         trueCount = 0, chipStack = 1000, currentRank = 1, handsRemaining = 5,
         canDouble = False, canSplit = False \<rparr> 0) \<noteq> Split"
  using getDecision_respects_eligibility [of
       "\<lparr> playerHand = [\<lparr>suit = Hearts, rank = ''10''\<rparr>, \<lparr>suit = Clubs, rank = ''4''\<rparr>,
                       \<lparr>suit = Clubs, rank = ''2''\<rparr>],
         playerTotal = 16, isSoft = False, dealerUpcard = \<lparr>suit = Spades, rank = ''7''\<rparr>,
         trueCount = 0, chipStack = 1000, currentRank = 1, handsRemaining = 5,
         canDouble = False, canSplit = False \<rparr>" defaultConfig "newCardCounter True" 0]
  by simp

section \<open>Properties of the experience tracker\<close>

lemma foldl_add_sum_list:
  fixes a :: real
  shows "foldl (\<lambda>sum e. sum + f e) a xs = a + sum_list (map f xs)"
  by (induction xs arbitrary: a) simp_all

lemma max_min_clamp:
  fixes lo hi x :: real
  assumes "lo \<le> hi"
  shows "max lo (min hi x) = clamp lo hi x"
  using assms by (auto simp add: clamp_def)

text \<open>
  Claim C5.  With fewer than five recorded hands matching the triple of player total,
  dealer upcard rank and action, \<open>getLearnedEVAdjustment\<close> returns exactly 0; with at
  least five it returns the average \<open>chipsWon\<close> of the matching hands divided by 100
  and clamped to the interval from -0.2 to +0.2.
\<close>

theorem getLearnedEVAdjustment_spec:
  "(length (matchingHands (experiences t) ptotal dealerRank act) < 5 \<longrightarrow>
      getLearnedEVAdjustment t ptotal dealerRank act = 0)
   \<and> (5 \<le> length (matchingHands (experiences t) ptotal dealerRank act) \<longrightarrow>
      getLearnedEVAdjustment t ptotal dealerRank act =
        clamp (- 0.2) 0.2
          (averageChipsWon (matchingHands (experiences t) ptotal dealerRank act) / 100))"
  unfolding getLearnedEVAdjustment_def matchingHands_def [symmetric] Let_def
  by (simp add: foldl_add_sum_list averageChipsWon_def max_min_clamp)

lemma matchingHands_replicate_example:
  "matchingHands (replicate n (exampleHand won)) 16 ''7'' ''hit'' = replicate n (exampleHand won)"
  by (simp add: matchingHands_def exampleHand_def actionName_def)

theorem getLearnedEVAdjustment_spec_witness:
  "length (matchingHands (experiences \<lparr>experiences = replicate 4 (exampleHand 50), sessions = []\<rparr>)
       16 ''7'' ''hit'') < 5
   \<and> getLearnedEVAdjustment \<lparr>experiences = replicate 4 (exampleHand 50), sessions = []\<rparr>
       16 ''7'' ''hit'' = 0
   \<and> 5 \<le> length (matchingHands (experiences \<lparr>experiences = replicate 5 (exampleHand 50), sessions = []\<rparr>)
       16 ''7'' ''hit'')
   \<and> getLearnedEVAdjustment \<lparr>experiences = replicate 5 (exampleHand 50), sessions = []\<rparr>
       16 ''7'' ''hit'' = 0.2
   \<and> getLearnedEVAdjustment \<lparr>experiences = replicate 5 (exampleHand (- 7)), sessions = []\<rparr>
       16 ''7'' ''hit'' = - 0.07"
proof -
  have won: "chipsWon (exampleHand w) = w" for w
    by (simp add: exampleHand_def)
  have avg: "averageChipsWon (replicate 5 (exampleHand w)) = w" for w
    by (simp add: averageChipsWon_def sum_list_replicate won)
  note four = getLearnedEVAdjustment_spec
      [of "\<lparr>experiences = replicate 4 (exampleHand 50), sessions = []\<rparr>" 16 "''7''" "''hit''"]
  note five = getLearnedEVAdjustment_spec
      [of "\<lparr>experiences = replicate 5 (exampleHand 50), sessions = []\<rparr>" 16 "''7''" "''hit''"]
  note loss = getLearnedEVAdjustment_spec
      [of "\<lparr>experiences = replicate 5 (exampleHand (- 7)), sessions = []\<rparr>" 16 "''7''" "''hit''"]
  show ?thesis
    using four five loss
    by (simp add: matchingHands_replicate_example avg clamp_def)
qed

section \<open>Properties of the opponent profiler\<close>

lemma updateProfile_apply:
  "updateProfile ps w sd r now w =
     Some (identifyWeaknesses (calculateScores (updateStats
       (recordEncounter (case ps w of Some q \<Rightarrow> q | None \<Rightarrow> createNewProfile w now) sd r now) sd)))"
  by (simp only: updateProfile_def Let_def fun_upd_same)

lemma identifyWeaknesses_read [simp]:
  "stats (identifyWeaknesses p) = stats p"
  "patterns (identifyWeaknesses p) = patterns p"
  "sessionsPlayed (identifyWeaknesses p) = sessionsPlayed p"
  "weaknesses (identifyWeaknesses p) = weaknessTags p"
  by (simp_all add: identifyWeaknesses_def)

lemma calculateScores_read [simp]:
  "patterns (calculateScores p) = patterns p"
  "sessionsPlayed (calculateScores p) = sessionsPlayed p"
  "statAvgBetSize (stats (calculateScores p)) = statAvgBetSize (stats p)"
  "doubleFrequency (stats (calculateScores p)) = doubleFrequency (stats p)"
  "aggressionScore (stats (calculateScores p)) = aggressionOf p"
  "skillScore (stats (calculateScores p)) = max 0 (min 1 (rawSkillOf p))"
  "consistencyScore (stats (calculateScores p)) = 0.7"
  by (simp_all add: calculateScores_def)

lemma updateStats_read [simp]:
  "patterns (updateStats p sd) = patterns p"
  "sessionsPlayed (updateStats p sd) = sessionsPlayed p"
  "stats (updateStats p sd) = updatedStats (stats p) sd (sessionsPlayed p)"
  by (simp_all add: updateStats_def)

lemma recordEncounter_read [simp]:
  "patterns (recordEncounter p sd r now) = patterns p"
  "sessionsPlayed (recordEncounter p sd r now) = sessionsPlayed p + 1"
  "stats (recordEncounter p sd r now) = stats p"
  by (simp_all add: recordEncounter_def Let_def)

text \<open>
  After every update the skill score and the consistency score lie between 0 and 1:
  the first is clamped, the second is the constant 0.7.
\<close>

lemma updateProfile_skill_consistency:
  "0 \<le> skillScore (stats (the (updateProfile ps w sd r now w)))
   \<and> skillScore (stats (the (updateProfile ps w sd r now w))) \<le> 1
   \<and> consistencyScore (stats (the (updateProfile ps w sd r now w))) = 0.7"
  by (simp add: updateProfile_apply)

text \<open>The two running averages that the aggression score reads.\<close>

lemma updatedStats_avgBet:
  "statAvgBetSize (updatedStats st sd n) = runningAverage (statAvgBetSize st) (avgBetSize sd) n"
  by (simp add: updatedStats_def Let_def)

lemma updatedStats_doubleFrequency:
  "0 < totalHits sd + totalStands sd + totalDoubles sd + totalSplits sd \<Longrightarrow>
   doubleFrequency (updatedStats st sd n)
     = runningAverage (doubleFrequency st)
         (totalDoubles sd / (totalHits sd + totalStands sd + totalDoubles sd + totalSplits sd)) n"
  by (simp add: updatedStats_def Let_def)

lemma aggressionOf_calculateScores_arg:
  "aggressionOf p = (min 1 (statAvgBetSize (stats p) / 75) + doubleFrequency (stats p) * 2) / 2"
  by (simp add: aggressionOf_def Let_def)

lemma updatedStats_example:
  "statAvgBetSize (updatedStats st exampleOpponent n)
     = (statAvgBetSize st * real_of_int n + 100) / (real_of_int n + 1)"
  "doubleFrequency (updatedStats st exampleOpponent n)
     = (doubleFrequency st * real_of_int n + 1) / (real_of_int n + 1)"
proof -
  have pos: "0 < totalHits exampleOpponent + totalStands exampleOpponent
     + totalDoubles exampleOpponent + totalSplits exampleOpponent"
    by (simp add: exampleOpponent_def)
  show "statAvgBetSize (updatedStats st exampleOpponent n)
     = (statAvgBetSize st * real_of_int n + 100) / (real_of_int n + 1)"
    by (simp add: updatedStats_avgBet runningAverage_def exampleOpponent_def)
  show "doubleFrequency (updatedStats st exampleOpponent n)
     = (doubleFrequency st * real_of_int n + 1) / (real_of_int n + 1)"
    unfolding updatedStats_doubleFrequency [OF pos] runningAverage_def
    by (simp add: exampleOpponent_def)
qed

text \<open>
  Claim C4 at a failing input.  An opponent who bets 100 chips on average and doubles
  on every action is recorded in two sessions.  The aggression score after the second
  update is 10/9, above 1: the score is the mean of a term capped at 1 and of twice the
  double frequency, and it is not clamped as the skill score is.
\<close>

theorem aggressionScore_exceeds_one:
  "aggressionScore (stats (the (updateProfile
       (updateProfile Map.empty ''w1'' exampleOpponent 1 0) ''w1'' exampleOpponent 1 5 ''w1'')))
     = 10 / 9
   \<and> 1 < aggressionScore (stats (the (updateProfile
       (updateProfile Map.empty ''w1'' exampleOpponent 1 0) ''w1'' exampleOpponent 1 5 ''w1'')))"
proof -
  define p1 where "p1 = the (updateProfile Map.empty ''w1'' exampleOpponent 1 0 ''w1'')"
  let ?p2 = "the (updateProfile (updateProfile Map.empty ''w1'' exampleOpponent 1 0)
                 ''w1'' exampleOpponent 1 5 ''w1'')"
  have new: "sessionsPlayed (createNewProfile ''w1'' 0) = 0"
    "statAvgBetSize (stats (createNewProfile ''w1'' 0)) = 0"
    "doubleFrequency (stats (createNewProfile ''w1'' 0)) = 0"
    by (simp_all add: createNewProfile_def)
  have n1: "sessionsPlayed p1 = 1"
    unfolding p1_def by (simp add: updateProfile_apply new)
  have a1: "statAvgBetSize (stats p1) = 50"
    unfolding p1_def by (simp add: updateProfile_apply updatedStats_example new)
  have d1: "doubleFrequency (stats p1) = 1 / 2"
    unfolding p1_def by (simp add: updateProfile_apply updatedStats_example new)
  have map1: "updateProfile Map.empty ''w1'' exampleOpponent 1 0 ''w1'' = Some p1"
    unfolding p1_def by (simp add: updateProfile_apply)
  have p2: "?p2 = identifyWeaknesses (calculateScores (updateStats
       (recordEncounter p1 exampleOpponent 1 5) exampleOpponent))"
    by (simp only: updateProfile_apply [of "updateProfile Map.empty ''w1'' exampleOpponent 1 0"]
          map1 option.case option.sel)
  have "aggressionScore (stats ?p2) = 10 / 9"
    unfolding p2
    by (simp add: aggressionOf_calculateScores_arg updatedStats_example n1 a1 d1)
  then show ?thesis by simp
qed

lemma in_set_weaknessTags:
  "''splits_tens'' \<in> set (weaknessTags p) \<longleftrightarrow> split10s (patterns p) > 0.05"
  by (simp add: weaknessTags_def)

lemma weaknessTags_cong:
  "stats p = stats q \<Longrightarrow> patterns p = patterns q \<Longrightarrow> weaknessTags p = weaknessTags q"
  by (simp only: weaknessTags_def)

lemma rawSkillOf_cong:
  "stats p = stats q \<Longrightarrow> patterns p = patterns q \<Longrightarrow> sessionsPlayed p = sessionsPlayed q
   \<Longrightarrow> rawSkillOf p = rawSkillOf q"
  by (simp only: rawSkillOf_def)

lemma aggressionOf_cong: "stats p = stats q \<Longrightarrow> aggressionOf p = aggressionOf q"
  by (simp only: aggressionOf_def)

lemma weaknessTags_ignores_old: "weaknessTags (p\<lparr>weaknesses := ws\<rparr>) = weaknessTags p"
  by (rule weaknessTags_cong) simp_all

lemma identifyWeaknesses_ignores_old:
  "identifyWeaknesses (p\<lparr>weaknesses := ws\<rparr>) = identifyWeaknesses p"
  by (simp add: identifyWeaknesses_def weaknessTags_ignores_old)

lemma calculateScores_weaknesses_update:
  "calculateScores (p\<lparr>weaknesses := ws\<rparr>) = (calculateScores p)\<lparr>weaknesses := ws\<rparr>"
proof -
  have a: "aggressionOf (p\<lparr>weaknesses := ws\<rparr>) = aggressionOf p"
    by (rule aggressionOf_cong) simp
  have r: "rawSkillOf (p\<lparr>weaknesses := ws\<rparr>) = rawSkillOf p"
    by (rule rawSkillOf_cong) simp_all
  show ?thesis
    unfolding calculateScores_def a r by simp
qed

lemma updateStats_weaknesses_update:
  "updateStats (p\<lparr>weaknesses := ws\<rparr>) sd = (updateStats p sd)\<lparr>weaknesses := ws\<rparr>"
  by (simp add: updateStats_def)

lemma recordEncounter_weaknesses_update:
  "recordEncounter (p\<lparr>weaknesses := ws\<rparr>) sd r now = (recordEncounter p sd r now)\<lparr>weaknesses := ws\<rparr>"
  by (simp add: recordEncounter_def Let_def)

lemma updateProfile_ignores_old_weaknesses:
  "updateProfile (ps(w \<mapsto> p\<lparr>weaknesses := ws\<rparr>)) w sd r now = updateProfile (ps(w \<mapsto> p)) w sd r now"
  unfolding updateProfile_def Let_def
  by (simp add: recordEncounter_weaknesses_update updateStats_weaknesses_update
        calculateScores_weaknesses_update identifyWeaknesses_ignores_old)

lemma updateProfile_keeps_split10s:
  "split10s (patterns (the (updateProfile ps w sd r now w)))
     = (case ps w of Some q \<Rightarrow> split10s (patterns q) | None \<Rightarrow> 0)"
  unfolding updateProfile_apply option.sel
  by (cases "ps w") (simp_all add: createNewProfile_def)

text \<open>
  \<open>updateWithHandObservation\<close> changes a frequency and leaves the tags as they are
  until the next \<open>updateProfile\<close>.
\<close>

lemma updateWithHandObservation_weaknesses:
  fixes q :: opponentProfile
  assumes "ps w = Some q"
  shows "weaknesses (the (updateWithHandObservation ps w sit act w)) = weaknesses q"
  using assms by (simp add: updateWithHandObservation_def Let_def)

lemma updateWithHandObservation_split_tens:
  fixes q :: opponentProfile
  assumes "ps w = Some q"
  shows "updateWithHandObservation ps w ''TT'' ''split'' w
           = Some (q\<lparr>patterns := (patterns q)
                \<lparr>split10s := updateFrequency (split10s (patterns q)) 1 (sessionsPlayed q)\<rparr>\<rparr>)"
  using assms by (simp add: updateWithHandObservation_def Let_def)

lemma split_tens_after_observation_and_update:
  fixes q :: opponentProfile
  assumes "ps w = Some q"
  shows "split10s (patterns (the (updateProfile
            (updateWithHandObservation ps w ''TT'' ''split'') w sd r now w)))
           = updateFrequency (split10s (patterns q)) 1 (sessionsPlayed q)"
  unfolding updateProfile_keeps_split10s
    updateWithHandObservation_split_tens [of ps w q, OF assms]
  by simp

lemma tag_after_updateProfile:
  "''splits_tens'' \<in> set (weaknesses (the (updateProfile ps w sd r now w)))
      \<longleftrightarrow> split10s (patterns (the (updateProfile ps w sd r now w))) > 0.05"
  unfolding updateProfile_apply option.sel
  by (simp only: in_set_weaknessTags identifyWeaknesses_read)

lemma updateFrequency_first: "updateFrequency 0 1 1 = 1"
  by (simp add: updateFrequency_def Let_def)

text \<open>
  The profile of an opponent after a first session: one session played, no observed
  split of tens, no \<open>splits_tens\<close> tag.
\<close>

lemma first_session_profile:
  "\<exists>p1. updateProfile Map.empty ''w1'' exampleOpponent 1 0 ''w1'' = Some p1
        \<and> sessionsPlayed p1 = 1 \<and> split10s (patterns p1) = 0
        \<and> ''splits_tens'' \<notin> set (weaknesses p1)"
proof -
  define p1 where "p1 = the (updateProfile Map.empty ''w1'' exampleOpponent 1 0 ''w1'')"
  have m: "updateProfile Map.empty ''w1'' exampleOpponent 1 0 ''w1'' = Some p1"
    unfolding p1_def by (simp add: updateProfile_apply)
  have n: "sessionsPlayed p1 = 1"
    unfolding p1_def by (simp add: updateProfile_apply createNewProfile_def)
  have z: "split10s (patterns p1) = 0"
    unfolding p1_def by (simp add: updateProfile_keeps_split10s)
  have "\<not> split10s (patterns p1) > 0.05"
    unfolding z by simp
  then have t: "''splits_tens'' \<notin> set (weaknesses p1)"
    unfolding p1_def using tag_after_updateProfile by blast
  show ?thesis using m n z t by blast
qed

text \<open>
  A split of tens observed after that first session raises the frequency to 1; the
  tags stay as they were.
\<close>

lemma observed_split_of_tens:
  "split10s (patterns (the (updateWithHandObservation
       (updateProfile Map.empty ''w1'' exampleOpponent 1 0) ''w1'' ''TT'' ''split'' ''w1''))) = 1
   \<and> ''splits_tens'' \<notin> set (weaknesses (the (updateWithHandObservation
       (updateProfile Map.empty ''w1'' exampleOpponent 1 0) ''w1'' ''TT'' ''split'' ''w1'')))"
proof -
  obtain p1 where m: "updateProfile Map.empty ''w1'' exampleOpponent 1 0 ''w1'' = Some p1"
    and n: "sessionsPlayed p1 = 1" and z: "split10s (patterns p1) = 0"
    and t: "''splits_tens'' \<notin> set (weaknesses p1)"
    using first_session_profile by blast
  have f: "split10s (patterns (the (updateWithHandObservation
       (updateProfile Map.empty ''w1'' exampleOpponent 1 0) ''w1'' ''TT'' ''split'' ''w1''))) = 1"
    unfolding updateWithHandObservation_split_tens
        [of "updateProfile Map.empty ''w1'' exampleOpponent 1 0" "''w1''" p1, OF m] n z
    by (simp add: updateFrequency_first)
  have w: "weaknesses (the (updateWithHandObservation
       (updateProfile Map.empty ''w1'' exampleOpponent 1 0) ''w1'' ''TT'' ''split'' ''w1''))
         = weaknesses p1"
    using updateWithHandObservation_weaknesses
        [of "updateProfile Map.empty ''w1'' exampleOpponent 1 0" "''w1''" p1, OF m] .
  show ?thesis using f t unfolding w by blast
qed

text \<open>
  Claim C9, as the code has it.  After every \<open>updateProfile\<close>, the per-session update,
  the weaknesses of the updated profile contain \<open>splits_tens\<close> if and only if its
  split-tens frequency is above 0.05 at that point, whatever tags the profile carried
  before: the list is rebuilt from nothing, so a stale tag is dropped and a missing one
  is added.  \<open>updateWithHandObservation\<close>, the update that changes the frequency, leaves
  the tags as they are: a frequency that it raises above 0.05 gets its tag at the next
  \<open>updateProfile\<close>.
\<close>

theorem splits_tens_tag_recomputed:
  "(''splits_tens'' \<in> set (weaknesses (the (updateProfile ps w sd r now w)))
      \<longleftrightarrow> split10s (patterns (the (updateProfile ps w sd r now w))) > 0.05)
   \<and> updateProfile (ps(w \<mapsto> q\<lparr>weaknesses := ws\<rparr>)) w sd r now
       = updateProfile (ps(w \<mapsto> q)) w sd r now
   \<and> (ps w = Some q \<longrightarrow>
        weaknesses (the (updateWithHandObservation ps w sit act w)) = weaknesses q)
   \<and> (ps w = Some q \<longrightarrow>
        (''splits_tens'' \<in> set (weaknesses (the (updateProfile
             (updateWithHandObservation ps w ''TT'' ''split'') w sd r now w)))
          \<longleftrightarrow> updateFrequency (split10s (patterns q)) 1 (sessionsPlayed q) > 0.05))"
proof (intro conjI impI)
  show "''splits_tens'' \<in> set (weaknesses (the (updateProfile ps w sd r now w)))
      \<longleftrightarrow> split10s (patterns (the (updateProfile ps w sd r now w))) > 0.05"
    by (rule tag_after_updateProfile)
  show "updateProfile (ps(w \<mapsto> q\<lparr>weaknesses := ws\<rparr>)) w sd r now
       = updateProfile (ps(w \<mapsto> q)) w sd r now"
    by (rule updateProfile_ignores_old_weaknesses)
next
  assume q: "ps w = Some q"
  show "weaknesses (the (updateWithHandObservation ps w sit act w)) = weaknesses q"
    using updateWithHandObservation_weaknesses [of ps w q, OF q] .
next
  assume q: "ps w = Some q"
  show "''splits_tens'' \<in> set (weaknesses (the (updateProfile
             (updateWithHandObservation ps w ''TT'' ''split'') w sd r now w)))
          \<longleftrightarrow> updateFrequency (split10s (patterns q)) 1 (sessionsPlayed q) > 0.05"
    unfolding tag_after_updateProfile
      split_tens_after_observation_and_update [of ps w q, OF q]
    by (rule refl)
qed

theorem splits_tens_tag_recomputed_witness:
  "updateProfile Map.empty ''w1'' exampleOpponent 1 0 ''w1''
      = Some (the (updateProfile Map.empty ''w1'' exampleOpponent 1 0 ''w1''))
   \<and> ''splits_tens'' \<notin> set (weaknesses (the (updateProfile Map.empty ''w1'' exampleOpponent 1 0 ''w1'')))
   \<and> ''splits_tens'' \<notin> set (weaknesses (the (updateWithHandObservation
        (updateProfile Map.empty ''w1'' exampleOpponent 1 0) ''w1'' ''TT'' ''split'' ''w1'')))
   \<and> updateFrequency
        (split10s (patterns (the (updateProfile Map.empty ''w1'' exampleOpponent 1 0 ''w1''))))
        1 (sessionsPlayed (the (updateProfile Map.empty ''w1'' exampleOpponent 1 0 ''w1''))) > 0.05
   \<and> ''splits_tens'' \<in> set (weaknesses (the (updateProfile
        (updateWithHandObservation (updateProfile Map.empty ''w1'' exampleOpponent 1 0)
           ''w1'' ''TT'' ''split'')
        ''w1'' exampleOpponent 1 5 ''w1'')))
   \<and> \<not> split10s (patterns (the (updateProfile [''w1'' \<mapsto> exampleProfile 0.5 0.5 0.02 [''splits_tens'']]
       ''w1'' exampleOpponent 1 5 ''w1''))) > 0.05
   \<and> ''splits_tens'' \<notin> set (weaknesses (the (updateProfile
       [''w1'' \<mapsto> exampleProfile 0.5 0.5 0.02 [''splits_tens'']]
       ''w1'' exampleOpponent 1 5 ''w1'')))"
proof -
  let ?ps0 = "updateProfile Map.empty ''w1'' exampleOpponent 1 0"
  let ?lo = "the (updateProfile [''w1'' \<mapsto> exampleProfile 0.5 0.5 0.02 [''splits_tens'']]
       ''w1'' exampleOpponent 1 5 ''w1'')"
  obtain p1 where m: "?ps0 ''w1'' = Some p1"
    and n: "sessionsPlayed p1 = 1" and z: "split10s (patterns p1) = 0"
    and t: "''splits_tens'' \<notin> set (weaknesses p1)"
    using first_session_profile by blast
  have sel: "the (?ps0 ''w1'') = p1" using m by simp
  have raised: "updateFrequency (split10s (patterns p1)) 1 (sessionsPlayed p1) > 0.05"
    unfolding n z updateFrequency_first by simp
  note main = splits_tens_tag_recomputed
      [where ps = "updateProfile Map.empty ''w1'' exampleOpponent 1 0" and w = "''w1''"
         and sd = exampleOpponent and r = 1 and now = 5 and q = p1 and ws = "[]"
         and sit = "''TT''" and act = "''split''"]
  have kept: "weaknesses (the (updateWithHandObservation ?ps0 ''w1'' ''TT'' ''split'' ''w1''))
      = weaknesses p1"
    using main m by blast
  have added: "''splits_tens'' \<in> set (weaknesses (the (updateProfile
        (updateWithHandObservation ?ps0 ''w1'' ''TT'' ''split'') ''w1'' exampleOpponent 1 5 ''w1'')))"
    using main m raised by blast
  have lo: "split10s (patterns ?lo) = 0.02"
    by (simp add: updateProfile_keeps_split10s exampleProfile_def)
  have lo': "\<not> split10s (patterns ?lo) > 0.05" unfolding lo by simp
  note t2 = splits_tens_tag_recomputed
      [where ps = "[''w1'' \<mapsto> exampleProfile 0.5 0.5 0.02 [''splits_tens'']]" and w = "''w1''"
         and sd = exampleOpponent and r = 1 and now = 5, THEN conjunct1]
  have dropped: "''splits_tens'' \<notin> set (weaknesses ?lo)"
    using t2 lo' by blast
  show ?thesis
    unfolding sel kept using m t raised added lo' dropped by blast
qed

text \<open>
  The claim as stated fails for the update that raises the frequency.  An opponent is
  recorded in one session and is then observed splitting tens: the frequency is 1,
  above 0.05, and the weaknesses do not contain \<open>splits_tens\<close>.
\<close>

theorem splits_tens_tag_counterexample:
  "split10s (patterns (the (updateWithHandObservation
       (updateProfile Map.empty ''w1'' exampleOpponent 1 0) ''w1'' ''TT'' ''split'' ''w1''))) > 0.05
   \<and> ''splits_tens'' \<notin> set (weaknesses (the (updateWithHandObservation
       (updateProfile Map.empty ''w1'' exampleOpponent 1 0) ''w1'' ''TT'' ''split'' ''w1'')))"
proof -
  have "(1::real) > 0.05" by simp
  then show ?thesis
    using observed_split_of_tens by simp
qed

section \<open>Properties of the learning coordinator\<close>



lemma knownOpponents_Nil [simp]: "knownOpponents ps [] = []"
  by (simp add: knownOpponents_def)


text \<open>Only the bet size is ever changed.\<close>

lemma adjustDecisionForOpponent_keeps:
  "action (adjustDecisionForOpponent lc decision wallets) = action decision
   \<and> confidence (adjustDecisionForOpponent lc decision wallets) = confidence decision
   \<and> expectedValue (adjustDecisionForOpponent lc decision wallets) = expectedValue decision"
  by (simp add: adjustDecisionForOpponent_def Let_def)









section \<open>Persistence failures\<close>

lemma load_returns: "thrownError (snd (load mm readResult)) = None"
  by (cases readResult) (simp_all add: load_def Let_def)

lemma load_missing_file:
  "load mm (Inl NotFound) =
     ([LogInfo ''[MemoryManager] No existing memory found, starting fresh''],
      Returned (mm, memory mm))"
  by (simp add: load_def)

lemma load_failure:
  "e \<noteq> NotFound \<Longrightarrow>
   load mm (Inl e) = ([LogError ''[MemoryManager] Error loading memory:''], Returned (mm, memory mm))"
  by (simp add: load_def)

lemma save_outcome:
  "save mm fs =
     (case saveFailure fs of
        Some e \<Rightarrow> ([LogError ''[MemoryManager] Error saving memory:''], Threw e mm)
      | None \<Rightarrow> ([LogDebug ''[MemoryManager] Memory saved successfully''], Returned mm))"
  by (simp add: save_def saveFailure_def split: sum.splits option.splits)

lemma coordinatorSave_outcome:
  "coordinatorSave lc fs =
     (case saveFailure fs of
        Some e \<Rightarrow> ([LogError ''[MemoryManager] Error saving memory:''], Threw e lc)
      | None \<Rightarrow> ([LogDebug ''[MemoryManager] Memory saved successfully''], Returned lc))"
  by (simp add: coordinatorSave_def save_outcome split: option.splits)

text \<open>The state that \<open>recordSession\<close> has built in memory when it calls \<open>save\<close>.\<close>

lemma recordSession_outcome:
  assumes "lcEnabled lc"
  shows "\<exists>lc1. tracker lc1 = trackerRecordSession (tracker lc) sessionRes
           \<and> currentSessionId lc1 = currentSessionId lc
           \<and> recordSession lc sessionRes bobRank now fs =
               (case saveFailure fs of
                  Some e \<Rightarrow>
                    (logInsights @ [LogError ''[MemoryManager] Error saving memory:''], Threw e lc1)
                | None \<Rightarrow>
                    (logInsights @ [LogDebug ''[MemoryManager] Memory saved successfully'',
                                    LogInfo ''[Learning] Session recorded''],
                     Returned (lc1\<lparr>currentSessionId := None, currentSessionHandCount := 0\<rparr>)))"
proof -
  define tr where "tr = trackerRecordSession (tracker lc) sessionRes"
  define ps where "ps = foldl (\<lambda>ps opponent. updateProfile ps (walletAddress opponent) opponent bobRank now)
                   (profiler lc) (opponents sessionRes)"
  define lc1 where "lc1 = lc\<lparr>tracker := tr, profiler := ps,
      memoryMgr := updateExperiences
        (updateOpponentProfiles (updatePerformance (memoryMgr lc) sessionRes) ps)
        (experiences tr) (sessions tr)\<rparr>"
  have t: "tracker lc1 = trackerRecordSession (tracker lc) sessionRes"
    by (simp add: lc1_def tr_def)
  have c: "currentSessionId lc1 = currentSessionId lc"
    by (simp add: lc1_def)
  have r: "recordSession lc sessionRes bobRank now fs =
               (case saveFailure fs of
                  Some e \<Rightarrow>
                    (logInsights @ [LogError ''[MemoryManager] Error saving memory:''], Threw e lc1)
                | None \<Rightarrow>
                    (logInsights @ [LogDebug ''[MemoryManager] Memory saved successfully'',
                                    LogInfo ''[Learning] Session recorded''],
                     Returned (lc1\<lparr>currentSessionId := None, currentSessionHandCount := 0\<rparr>)))"
    using assms
    unfolding recordSession_def Let_def coordinatorSave_outcome lc1_def tr_def ps_def
    by (cases "saveFailure fs") simp_all
  show ?thesis
    using t c r by blast
qed

lemma recordSession_disabled:
  "\<not> lcEnabled lc \<Longrightarrow> recordSession lc sessionRes bobRank now fs = ([], Returned lc)"
  by (simp add: recordSession_def)

lemma recordSession_thrown:
  "thrownError (snd (recordSession lc sessionRes bobRank now fs))
     = (if lcEnabled lc then saveFailure fs else None)"
proof (cases "lcEnabled lc")
  case True
  then obtain lc1 where "recordSession lc sessionRes bobRank now fs =
               (case saveFailure fs of
                  Some e \<Rightarrow>
                    (logInsights @ [LogError ''[MemoryManager] Error saving memory:''], Threw e lc1)
                | None \<Rightarrow>
                    (logInsights @ [LogDebug ''[MemoryManager] Memory saved successfully'',
                                    LogInfo ''[Learning] Session recorded''],
                     Returned (lc1\<lparr>currentSessionId := None, currentSessionHandCount := 0\<rparr>)))"
    using recordSession_outcome by blast
  then show ?thesis using True by (cases "saveFailure fs") simp_all
next
  case False
  then show ?thesis by (simp add: recordSession_disabled)
qed

lemma recordSession_failed_save:
  assumes "lcEnabled lc" and "saveFailure fs = Some e"
  shows "LogError ''[MemoryManager] Error saving memory:''
           \<in> set (fst (recordSession lc sessionRes bobRank now fs))
       \<and> tracker (finalState (snd (recordSession lc sessionRes bobRank now fs)))
           = trackerRecordSession (tracker lc) sessionRes
       \<and> currentSessionId (finalState (snd (recordSession lc sessionRes bobRank now fs)))
           = currentSessionId lc"
proof -
  obtain lc1 where "tracker lc1 = trackerRecordSession (tracker lc) sessionRes"
    and "currentSessionId lc1 = currentSessionId lc"
    and "recordSession lc sessionRes bobRank now fs =
               (case saveFailure fs of
                  Some e \<Rightarrow>
                    (logInsights @ [LogError ''[MemoryManager] Error saving memory:''], Threw e lc1)
                | None \<Rightarrow>
                    (logInsights @ [LogDebug ''[MemoryManager] Memory saved successfully'',
                                    LogInfo ''[Learning] Session recorded''],
                     Returned (lc1\<lparr>currentSessionId := None, currentSessionHandCount := 0\<rparr>)))"
    using recordSession_outcome [OF assms(1)] by blast
  then show ?thesis using assms(2) by simp
qed

lemma handleSessionCompletion_returns:
  "thrownError (snd (handleSessionCompletion cfg lc fetched now fs1 fs2)) = None"
  unfolding handleSessionCompletion_def
  by (simp split: sum.splits option.splits prod.splits completion.splits)

lemma handleSessionCompletion_logs_failure:
  assumes "learningEnabled cfg" and "lcEnabled lc" and "saveFailure fs1 = Some e"
  shows "LogError ''[GameClient] Error handling session completion:''
           \<in> set (fst (handleSessionCompletion cfg lc (Inr (Some results)) now fs1 fs2))"
proof -
  have "thrownError (snd (recordSession lc results (finalRank results) now fs1)) = Some e"
    using assms by (simp add: recordSession_thrown)
  then obtain lg lc1 where "recordSession lc results (finalRank results) now fs1 = (lg, Threw e lc1)"
    by (cases "recordSession lc results (finalRank results) now fs1";
        cases "snd (recordSession lc results (finalRank results) now fs1)") auto
  then show ?thesis
    using assms(1) by (simp add: handleSessionCompletion_def)
qed

text \<open>
  Claim C6, as the code has it.  \<open>load\<close> never throws: a missing file is reported at
  info level and any other read or parse failure at error level, and both leave the
  memory that the manager holds, which is the empty memory for a new manager.  \<open>save\<close>
  logs a failure and throws it again, so \<open>recordSession\<close>, when learning is enabled,
  ends in exactly the exception of its save: the failure is logged, the updates made in
  memory are kept, and the session tracking is not reset.  The exception goes no
  further than \<open>GameClient.handleSessionCompletion\<close>, which logs it and returns.
\<close>

theorem persistence_failures:
  "thrownError (snd (load mm readResult)) = None
   \<and> load (newMemoryManager cfg path t0) (Inl NotFound) =
       ([LogInfo ''[MemoryManager] No existing memory found, starting fresh''],
        Returned (newMemoryManager cfg path t0, createEmptyMemory cfg t0))
   \<and> (e \<noteq> NotFound \<longrightarrow>
        load mm (Inl e) =
          ([LogError ''[MemoryManager] Error loading memory:''], Returned (mm, memory mm)))
   \<and> thrownError (snd (recordSession lc sessionRes bobRank now fs))
       = (if lcEnabled lc then saveFailure fs else None)
   \<and> (lcEnabled lc \<and> saveFailure fs = Some e \<longrightarrow>
        LogError ''[MemoryManager] Error saving memory:''
           \<in> set (fst (recordSession lc sessionRes bobRank now fs))
        \<and> tracker (finalState (snd (recordSession lc sessionRes bobRank now fs)))
           = trackerRecordSession (tracker lc) sessionRes
        \<and> currentSessionId (finalState (snd (recordSession lc sessionRes bobRank now fs)))
           = currentSessionId lc)
   \<and> thrownError (snd (handleSessionCompletion cfg lc fetched now fs fs2)) = None
   \<and> (learningEnabled cfg \<and> lcEnabled lc \<and> saveFailure fs = Some e \<longrightarrow>
        LogError ''[GameClient] Error handling session completion:''
           \<in> set (fst (handleSessionCompletion cfg lc (Inr (Some sessionRes)) now fs fs2)))"
proof -
  have m: "memory (newMemoryManager cfg path t0) = createEmptyMemory cfg t0"
    by (simp add: newMemoryManager_def)
  show ?thesis
    using load_returns [of mm readResult]
      load_missing_file [of "newMemoryManager cfg path t0"]
      load_failure [of e mm]
      recordSession_thrown [of lc sessionRes bobRank now fs]
      recordSession_failed_save [of lc fs e sessionRes bobRank now]
      handleSessionCompletion_returns [of cfg lc fetched now fs fs2]
      handleSessionCompletion_logs_failure [of cfg lc fs e sessionRes now fs2]
    unfolding m by blast
qed

lemma saveFailure_write:
  "saveFailure \<lparr>mkdirResult = None, writeResult = Some e\<rparr> = Some e"
  by (simp add: saveFailure_def ensureDataDirectory_def)

lemma new_coordinator_enabled:
  "lcEnabled (newLearningCoordinator defaultConfig path t0)"
  by (simp add: newLearningCoordinator_def defaultConfig_def)

theorem persistence_failures_witness:
  "OtherFailure ''disk full'' \<noteq> NotFound
   \<and> lcEnabled (newLearningCoordinator defaultConfig ''./data/bob-memory.json'' 0)
   \<and> learningEnabled defaultConfig
   \<and> saveFailure \<lparr>mkdirResult = None, writeResult = Some (OtherFailure ''disk full'')\<rparr>
       = Some (OtherFailure ''disk full'')
   \<and> load (newMemoryManager defaultConfig ''./data/bob-memory.json'' 0) (Inl (OtherFailure ''disk full''))
       = ([LogError ''[MemoryManager] Error loading memory:''],
          Returned (newMemoryManager defaultConfig ''./data/bob-memory.json'' 0,
                    memory (newMemoryManager defaultConfig ''./data/bob-memory.json'' 0)))
   \<and> thrownError (snd (recordSession
         (newLearningCoordinator defaultConfig ''./data/bob-memory.json'' 0) exampleSession 1 0
         \<lparr>mkdirResult = None, writeResult = Some (OtherFailure ''disk full'')\<rparr>))
       = Some (OtherFailure ''disk full'')
   \<and> LogError ''[MemoryManager] Error saving memory:''
        \<in> set (fst (recordSession
         (newLearningCoordinator defaultConfig ''./data/bob-memory.json'' 0) exampleSession 1 0
         \<lparr>mkdirResult = None, writeResult = Some (OtherFailure ''disk full'')\<rparr>))
   \<and> LogError ''[GameClient] Error handling session completion:''
        \<in> set (fst (handleSessionCompletion defaultConfig
         (newLearningCoordinator defaultConfig ''./data/bob-memory.json'' 0)
         (Inr (Some exampleSession)) 0
         \<lparr>mkdirResult = None, writeResult = Some (OtherFailure ''disk full'')\<rparr>
         \<lparr>mkdirResult = None, writeResult = None\<rparr>))"
proof -
  let ?lc = "newLearningCoordinator defaultConfig ''./data/bob-memory.json'' 0"
  let ?fs = "\<lparr>mkdirResult = None, writeResult = Some (OtherFailure ''disk full'')\<rparr>"
  have ne: "OtherFailure ''disk full'' \<noteq> NotFound" by simp
  have en: "lcEnabled ?lc" by (rule new_coordinator_enabled)
  have le: "learningEnabled defaultConfig" by (simp add: defaultConfig_def)
  have sf: "saveFailure ?fs = Some (OtherFailure ''disk full'')" by (rule saveFailure_write)
  note t = persistence_failures [of "newMemoryManager defaultConfig ''./data/bob-memory.json'' 0"
      "Inl NotFound" defaultConfig "''./data/bob-memory.json''" 0 "OtherFailure ''disk full''"
      ?lc exampleSession 1 0 ?fs "Inr (Some exampleSession)" "\<lparr>mkdirResult = None, writeResult = None\<rparr>"]
  show ?thesis
    using t ne en le sf by simp
qed

text \<open>
  The claim as stated fails: with learning enabled and a write that fails,
  \<open>recordSession\<close> ends in the exception instead of returning.
\<close>

theorem recordSession_throws_counterexample:
  "thrownError (snd (recordSession
      (newLearningCoordinator defaultConfig ''./data/bob-memory.json'' 0) exampleSession 1 0
      \<lparr>mkdirResult = None, writeResult = Some (OtherFailure ''disk full'')\<rparr>))
     = Some (OtherFailure ''disk full'')"
  by (simp add: recordSession_thrown new_coordinator_enabled saveFailure_write)

end
